theory Spec2Isabelle
  imports Main "HOL-Library.Word"
begin

section \<open>Values, property maps and errors\<close>

text \<open>
  Go's \<^verbatim>\<open>interface{}\<close> values as they travel between the program and the graph store:
  strings, integers, a \<^verbatim>\<open>float64\<close> (kept as its 64 bits: the program only passes it on),
  a \<^verbatim>\<open>time.Time\<close> (an instant, as an integer), \<^verbatim>\<open>nil\<close>, a nested struct turned into a map,
  and a \<^verbatim>\<open>dbtype.Node\<close> of the driver (of which the program reads only \<^verbatim>\<open>Props\<close>; the
  association list stands for the Go map, the first entry of a key being its value).
\<close>

datatype val =
    VNull
  | VStr string
  | VInt int
  | VFloat "64 word"
  | VTime int
  | VMap "(string \<times> val) list"
  | VNode "(string \<times> val) list"

type_synonym props = "string \<rightharpoonup> val"

text \<open>
  A Go \<^verbatim>\<open>error\<close> returned by the directory or the driver is \<open>StoreError\<close> with its message;
  a run-time panic (index out of range, failed type assertion) is \<open>Panic\<close>.
\<close>

datatype error = StoreError string | Panic string

section \<open>The ingester: \<^verbatim>\<open>deepfence_ingester/ingesters/secrets.go\<close>\<close>

subsection \<open>Wire records\<close>

record SecretScanStatus =
  Timestamp_st :: int
  ContainerName_st :: string
  HostName_st :: string
  KubernetesClusterName_st :: string
  Masked_st :: string
  NodeID_st :: string
  NodeName_st :: string
  NodeType_st :: string
  ScanID_st :: string
  ScanStatus_st :: string

record Match_t =
  StartingIndex :: int
  RelativeStartingIndex :: int
  RelativeEndingIndex :: int
  FullFilename :: string
  MatchedContent :: string

record Rule_t =
  ID :: int
  Name :: string
  Part :: string
  SignatureToMatch :: string

record Severity_t =
  Level :: string
  Score :: "64 word"

record Secret =
  Timestamp :: int
  ImageLayerID :: string
  Match :: Match_t
  Rule :: Rule_t
  Severity :: Severity_t
  ContainerName :: string
  HostName :: string
  KubernetesClusterName :: string
  Masked :: string
  NodeID :: string
  NodeName :: string
  NodeType :: string
  ScanID :: string

subsection \<open>\<^verbatim>\<open>utils.ToMap\<close>\<close>

text \<open>
  Modelled from the spec: \<^verbatim>\<open>utils.ToMap\<close> (package \<^verbatim>\<open>deepfence_utils/utils\<close> is not among the
  sources), here at the \<^verbatim>\<open>Match\<close> group. The finding wire record has "fixed field names":
  the map has one entry per struct field, keyed by the field's \<^verbatim>\<open>json\<close> tag as the struct
  declarations above give it. That the keys are the tags is what the source relies on
  when it deletes \<^verbatim>\<open>"Severity"\<close>, \<^verbatim>\<open>"Rule"\<close>, \<^verbatim>\<open>"Match"\<close> and when its queries read
  \<^verbatim>\<open>row.scan_id\<close>, \<^verbatim>\<open>row.host_name\<close>, \<^verbatim>\<open>rule.id\<close>.
\<close>

definition Match_entries :: "Match_t \<Rightarrow> (string \<times> val) list" where
  "Match_entries m =
     [(''starting_index'', VInt (StartingIndex m)),
      (''relative_starting_index'', VInt (RelativeStartingIndex m)),
      (''relative_ending_index'', VInt (RelativeEndingIndex m)),
      (''full_filename'', VStr (FullFilename m)),
      (''matched_content'', VStr (MatchedContent m))]"

definition ToMap_Match :: "Match_t \<Rightarrow> props" where
  "ToMap_Match m = map_of (Match_entries m)"

text \<open>Modelled from the spec: \<^verbatim>\<open>utils.ToMap\<close> (not among the sources) at the \<^verbatim>\<open>Rule\<close> group.\<close>

definition Rule_entries :: "Rule_t \<Rightarrow> (string \<times> val) list" where
  "Rule_entries r =
     [(''id'', VInt (ID r)),
      (''name'', VStr (Name r)),
      (''part'', VStr (Part r)),
      (''signature_to_match'', VStr (SignatureToMatch r))]"

definition ToMap_Rule :: "Rule_t \<Rightarrow> props" where
  "ToMap_Rule r = map_of (Rule_entries r)"

text \<open>Modelled from the spec: \<^verbatim>\<open>utils.ToMap\<close> (not among the sources) at the \<^verbatim>\<open>Severity\<close> group.\<close>

definition Severity_entries :: "Severity_t \<Rightarrow> (string \<times> val) list" where
  "Severity_entries s =
     [(''level'', VStr (Level s)),
      (''score'', VFloat (Score s))]"

definition ToMap_Severity :: "Severity_t \<Rightarrow> props" where
  "ToMap_Severity s = map_of (Severity_entries s)"

text \<open>
  Modelled from the spec: \<^verbatim>\<open>utils.ToMap\<close> (not among the sources) at \<^verbatim>\<open>Secret\<close>. The three
  nested groups are entries too, under their tags; \<^verbatim>\<open>secretsToMaps\<close> deletes them at once.
\<close>

definition Secret_entries :: "Secret \<Rightarrow> (string \<times> val) list" where
  "Secret_entries i =
     [(''@timestamp'', VTime (Timestamp i)),
      (''ImageLayerId'', VStr (ImageLayerID i)),
      (''Match'', VMap (Match_entries (Match i))),
      (''Rule'', VMap (Rule_entries (Rule i))),
      (''Severity'', VMap (Severity_entries (Severity i))),
      (''container_name'', VStr (ContainerName i)),
      (''host_name'', VStr (HostName i)),
      (''kubernetes_cluster_name'', VStr (KubernetesClusterName i)),
      (''masked'', VStr (Masked i)),
      (''node_id'', VStr (NodeID i)),
      (''node_name'', VStr (NodeName i)),
      (''node_type'', VStr (NodeType i)),
      (''scan_id'', VStr (ScanID i))]"

definition ToMap_Secret :: "Secret \<Rightarrow> props" where
  "ToMap_Secret i = map_of (Secret_entries i)"

text \<open>Modelled from the spec: \<^verbatim>\<open>utils.ToMap\<close> (not among the sources) at \<^verbatim>\<open>SecretScanStatus\<close>.\<close>

definition SecretScanStatus_entries :: "SecretScanStatus \<Rightarrow> (string \<times> val) list" where
  "SecretScanStatus_entries i =
     [(''@timestamp'', VTime (Timestamp_st i)),
      (''container_name'', VStr (ContainerName_st i)),
      (''host_name'', VStr (HostName_st i)),
      (''kubernetes_cluster_name'', VStr (KubernetesClusterName_st i)),
      (''masked'', VStr (Masked_st i)),
      (''node_id'', VStr (NodeID_st i)),
      (''node_name'', VStr (NodeName_st i)),
      (''node_type'', VStr (NodeType_st i)),
      (''scan_id'', VStr (ScanID_st i)),
      (''scan_status'', VStr (ScanStatus_st i))]"

definition ToMap_SecretScanStatus :: "SecretScanStatus \<Rightarrow> props" where
  "ToMap_SecretScanStatus i = map_of (SecretScanStatus_entries i)"

subsection \<open>\<^verbatim>\<open>fmt.Sprintf("%v:%v", i.Rule.ID, i.HostName)\<close>\<close>

text \<open>\<^verbatim>\<open>%v\<close> prints a Go \<^verbatim>\<open>int\<close> in decimal, with a leading minus sign when negative.\<close>

definition digit_char :: "nat \<Rightarrow> char" where
  "digit_char d = char_of (48 + d)"

function show_nat :: "nat \<Rightarrow> string" where
  "show_nat n = (if n < 10 then [digit_char n] else show_nat (n div 10) @ [digit_char (n mod 10)])"
  by pat_completeness auto
termination
  by (relation "measure id") auto

declare show_nat.simps [simp del]

definition show_int :: "int \<Rightarrow> string" where
  "show_int i = (if i < 0 then CHR ''-'' # show_nat (nat (- i)) else show_nat (nat i))"

definition Sprintf_v_colon_v :: "int \<Rightarrow> string \<Rightarrow> string" where
  "Sprintf_v_colon_v a b = show_int a @ '':'' @ b"

subsection \<open>\<^verbatim>\<open>statusesToMaps\<close> and \<^verbatim>\<open>secretsToMaps\<close>\<close>

definition statusesToMaps :: "SecretScanStatus list \<Rightarrow> props list" where
  "statusesToMaps data = map ToMap_SecretScanStatus data"

text \<open>
  The body of the loop of \<^verbatim>\<open>secretsToMaps\<close>, up to the \<^verbatim>\<open>append\<close>: the map \<^verbatim>\<open>secret\<close>.
  The three deletes, the two range loops (\<open>++\<close> lets the right map win, as the
  assignment \<^verbatim>\<open>secret[k] = v\<close> does) and the assignment of \<^verbatim>\<open>rule_id\<close>, in the source's order.
\<close>

definition secret_map :: "Secret \<Rightarrow> props" where
  "secret_map i =
     (let secret = ToMap_Secret i;
          secret = secret(''Severity'' := None);
          secret = secret(''Rule'' := None);
          secret = secret(''Match'' := None);
          secret = secret ++ ToMap_Severity (Severity i);
          secret = secret ++ ToMap_Match (Match i)
      in secret(''rule_id'' \<mapsto> VStr (Sprintf_v_colon_v (ID (Rule i)) (HostName i))))"

text \<open>One element of the result: the map with the two keys \<^verbatim>\<open>"Rule"\<close> and \<^verbatim>\<open>"Secret"\<close>.\<close>

definition secret_entry :: "Secret \<Rightarrow> (string \<rightharpoonup> props)" where
  "secret_entry i = [''Rule'' \<mapsto> ToMap_Rule (Rule i), ''Secret'' \<mapsto> secret_map i]"

definition secretsToMaps :: "Secret list \<Rightarrow> (string \<rightharpoonup> props) list" where
  "secretsToMaps data = map secret_entry data"

subsection \<open>The graph store and the clauses of the two write queries\<close>

text \<open>
  The property graph the queries run against: a node has labels and a property map and is
  identified by its position in \<open>nodes\<close> (the queries never delete a node); an edge is
  (source, type, target).
\<close>

record gnode =
  labels :: "string list"
  node_props :: props

record graph =
  nodes :: "gnode list"
  edges :: "(nat \<times> string \<times> nat) list"

text \<open>\<^verbatim>\<open>m.k\<close> on a map: a missing key reads as \<^verbatim>\<open>null\<close>.\<close>

definition get_prop :: "props \<Rightarrow> string \<Rightarrow> val" where
  "get_prop m k = (case m k of None \<Rightarrow> VNull | Some v \<Rightarrow> v)"

definition get_map :: "(string \<rightharpoonup> props) \<Rightarrow> string \<Rightarrow> props" where
  "get_map row k = (case row k of None \<Rightarrow> Map.empty | Some m \<Rightarrow> m)"

text \<open>
  A node pattern \<^verbatim>\<open>(x:L{k1: v1, ...})\<close> matches a node that carries the label and, for each
  key, a property equal to the value; nothing equals \<^verbatim>\<open>null\<close>.
\<close>

definition node_matches :: "gnode \<Rightarrow> string \<Rightarrow> (string \<times> val) list \<Rightarrow> bool" where
  "node_matches nd l kvs =
     (l \<in> set (labels nd) \<and>
      list_all (\<lambda>kv. snd kv \<noteq> VNull \<and> node_props nd (fst kv) = Some (snd kv)) kvs)"

definition match_nodes :: "graph \<Rightarrow> string \<Rightarrow> (string \<times> val) list \<Rightarrow> nat list" where
  "match_nodes g l kvs = filter (\<lambda>i. node_matches (nodes g ! i) l kvs) [0..<length (nodes g)]"

definition create_node :: "graph \<Rightarrow> string \<Rightarrow> (string \<times> val) list \<Rightarrow> graph" where
  "create_node g l kvs = g\<lparr>nodes := nodes g @ [\<lparr>labels = [l], node_props = map_of kvs\<rparr>]\<rparr>"

text \<open>
  \<^verbatim>\<open>MERGE (x:L{...})\<close> for one row: every node the pattern matches gives a row; when none
  matches, the node is created with exactly the pattern's label and properties. The
  store refuses a \<^verbatim>\<open>null\<close> property value in a \<^verbatim>\<open>MERGE\<close>.
\<close>

definition merge_node :: "graph \<Rightarrow> string \<Rightarrow> (string \<times> val) list \<Rightarrow> error + graph \<times> nat list" where
  "merge_node g l kvs =
     (if list_ex (\<lambda>kv. snd kv = VNull) kvs
      then Inl (StoreError ''Cannot merge node using null property value'')
      else (case match_nodes g l kvs of
              [] \<Rightarrow> Inr (create_node g l kvs, [length (nodes g)])
            | i # js \<Rightarrow> Inr (g, i # js)))"

text \<open>
  \<^verbatim>\<open>MERGE (a)-[:T]->(b)\<close> with both ends bound: one row per existing edge; when there is
  none, the edge is created. The number is that of the rows produced.
\<close>

definition merge_edge :: "graph \<Rightarrow> nat \<Rightarrow> string \<Rightarrow> nat \<Rightarrow> graph \<times> nat" where
  "merge_edge g a t b =
     (let k = count_list (edges g) (a, t, b)
      in if k = 0 then (g\<lparr>edges := edges g @ [(a, t, b)]\<rparr>, 1) else (g, k))"

text \<open>\<^verbatim>\<open>SET x += m\<close>: every entry of the map is written; a \<^verbatim>\<open>null\<close> value removes the property.\<close>

definition add_props :: "props \<Rightarrow> props \<Rightarrow> props" where
  "add_props old m =
     (\<lambda>k. case m k of None \<Rightarrow> old k | Some VNull \<Rightarrow> None | Some v \<Rightarrow> Some v)"

definition set_add_props :: "graph \<Rightarrow> nat \<Rightarrow> props \<Rightarrow> graph" where
  "set_add_props g i m =
     g\<lparr>nodes := (nodes g)[i := (nodes g ! i)\<lparr>node_props := add_props (node_props (nodes g ! i)) m\<rparr>]\<rparr>"

text \<open>\<^verbatim>\<open>SET x.k = v\<close>.\<close>

definition set_prop :: "graph \<Rightarrow> nat \<Rightarrow> string \<Rightarrow> val \<Rightarrow> graph" where
  "set_prop g i k v =
     g\<lparr>nodes := (nodes g)[i := (nodes g ! i)\<lparr>node_props :=
        (node_props (nodes g ! i))(k := (if v = VNull then None else Some v))\<rparr>]\<rparr>"

text \<open>
  A clause maps the graph and the table of rows to a new graph and a new table. It works
  through the rows in order, each row seeing the writes of the rows before it; the next
  clause starts when the last row is done.
\<close>

fun for_rows :: "('r \<Rightarrow> graph \<Rightarrow> error + graph \<times> 's list) \<Rightarrow> 'r list \<Rightarrow> graph \<Rightarrow> error + graph \<times> 's list" where
  "for_rows f [] g = Inr (g, [])"
| "for_rows f (r # rs) g =
     (case f r g of
        Inl e \<Rightarrow> Inl e
      | Inr (g1, out1) \<Rightarrow>
          (case for_rows f rs g1 of
             Inl e \<Rightarrow> Inl e
           | Inr (g2, out2) \<Rightarrow> Inr (g2, out1 @ out2)))"

definition clause :: "error + graph \<times> 'r list \<Rightarrow> ('r \<Rightarrow> graph \<Rightarrow> error + graph \<times> 's list) \<Rightarrow> error + graph \<times> 's list" where
  "clause x f = (case x of Inl e \<Rightarrow> Inl e | Inr (g, rows) \<Rightarrow> for_rows f rows g)"

definition result_graph :: "error + graph \<times> 'r list \<Rightarrow> error + graph" where
  "result_graph x = (case x of Inl e \<Rightarrow> Inl e | Inr (g, rows) \<Rightarrow> Inr g)"

text \<open>
  The query of \<^verbatim>\<open>CommitFuncSecrets\<close>, clause by clause; \<open>now\<close> is the value of
  \<^verbatim>\<open>timestamp()\<close>, which is the same for every row of one query:
  \<^verbatim>\<open>UNWIND $batch as row WITH row.Rule as rule, row.Secret as secret
  MERGE (r:Rule{node_id:rule.id}) SET r+=rule WITH secret as row, r
  MERGE (n:Secret{node_id:row.rule_id}) MERGE (n)-[:IS]->(r)
  MERGE (m:SecretScan{node_id: row.scan_id, host_name: row.host_name, time_stamp: timestamp()})
  WITH n, m, row MATCH (l:Node{node_id: row.host_name})
  MERGE (m) -[:DETECTED]-> (n) MERGE (m) -[:SCANNED]-> (l) SET n+= row\<close>
\<close>

definition secrets_cypher :: string where
  "secrets_cypher = ''UNWIND $batch as row WITH row.Rule as rule, row.Secret as secret MERGE (r:Rule{node_id:rule.id}) SET r+=rule WITH secret as row, r MERGE (n:Secret{node_id:row.rule_id}) MERGE (n)-[:IS]->(r) MERGE (m:SecretScan{node_id: row.scan_id, host_name: row.host_name, time_stamp: timestamp()}) WITH n, m, row MATCH (l:Node{node_id: row.host_name}) MERGE (m) -[:DETECTED]-> (n) MERGE (m) -[:SCANNED]-> (l) SET n+= row''"

definition secrets_query :: "int \<Rightarrow> (string \<rightharpoonup> props) list \<Rightarrow> graph \<Rightarrow> error + graph" where
  "secrets_query now batch g0 =
     (let \<comment> \<open>\<^verbatim>\<open>UNWIND $batch as row WITH row.Rule as rule, row.Secret as secret\<close>\<close>
          c1 = Inr (g0, map (\<lambda>row. (get_map row ''Rule'', get_map row ''Secret'')) batch);
          \<comment> \<open>\<^verbatim>\<open>MERGE (r:Rule{node_id:rule.id})\<close>\<close>
          c2 = clause c1 (\<lambda>(rule, secret) g.
                 case merge_node g ''Rule'' [(''node_id'', get_prop rule ''id'')] of
                   Inl e \<Rightarrow> Inl e
                 | Inr (g', rs) \<Rightarrow> Inr (g', map (\<lambda>r. (rule, secret, r)) rs));
          \<comment> \<open>\<^verbatim>\<open>SET r+=rule\<close>\<close>
          c3 = clause c2 (\<lambda>(rule, secret, r) g.
                 Inr (set_add_props g r rule, [(rule, secret, r)]));
          \<comment> \<open>\<^verbatim>\<open>WITH secret as row, r\<close>\<close>
          c4 = clause c3 (\<lambda>(rule, secret, r) g. Inr (g, [(secret, r)]));
          \<comment> \<open>\<^verbatim>\<open>MERGE (n:Secret{node_id:row.rule_id})\<close>\<close>
          c5 = clause c4 (\<lambda>(row, r) g.
                 case merge_node g ''Secret'' [(''node_id'', get_prop row ''rule_id'')] of
                   Inl e \<Rightarrow> Inl e
                 | Inr (g', ns) \<Rightarrow> Inr (g', map (\<lambda>n. (row, r, n)) ns));
          \<comment> \<open>\<^verbatim>\<open>MERGE (n)-[:IS]->(r)\<close>\<close>
          c6 = clause c5 (\<lambda>(row, r, n) g.
                 case merge_edge g n ''IS'' r of
                   (g', k) \<Rightarrow> Inr (g', replicate k (row, r, n)));
          \<comment> \<open>\<^verbatim>\<open>MERGE (m:SecretScan{node_id: row.scan_id, host_name: row.host_name, time_stamp: timestamp()})\<close>\<close>
          c7 = clause c6 (\<lambda>(row, r, n) g.
                 case merge_node g ''SecretScan''
                        [(''node_id'', get_prop row ''scan_id''),
                         (''host_name'', get_prop row ''host_name''),
                         (''time_stamp'', VInt now)] of
                   Inl e \<Rightarrow> Inl e
                 | Inr (g', ms) \<Rightarrow> Inr (g', map (\<lambda>m. (row, r, n, m)) ms));
          \<comment> \<open>\<^verbatim>\<open>WITH n, m, row\<close>\<close>
          c8 = clause c7 (\<lambda>(row, r, n, m) g. Inr (g, [(n, m, row)]));
          \<comment> \<open>\<^verbatim>\<open>MATCH (l:Node{node_id: row.host_name})\<close>: a row with no match is dropped\<close>
          c9 = clause c8 (\<lambda>(n, m, row) g.
                 Inr (g, map (\<lambda>l. (n, m, row, l))
                           (match_nodes g ''Node'' [(''node_id'', get_prop row ''host_name'')])));
          \<comment> \<open>\<^verbatim>\<open>MERGE (m) -[:DETECTED]-> (n)\<close>\<close>
          c10 = clause c9 (\<lambda>(n, m, row, l) g.
                 case merge_edge g m ''DETECTED'' n of
                   (g', k) \<Rightarrow> Inr (g', replicate k (n, m, row, l)));
          \<comment> \<open>\<^verbatim>\<open>MERGE (m) -[:SCANNED]-> (l)\<close>\<close>
          c11 = clause c10 (\<lambda>(n, m, row, l) g.
                 case merge_edge g m ''SCANNED'' l of
                   (g', k) \<Rightarrow> Inr (g', replicate k (n, m, row, l)));
          \<comment> \<open>\<^verbatim>\<open>SET n+= row\<close>\<close>
          c12 = clause c11 (\<lambda>(n, m, row, l) g.
                 Inr (set_add_props g n row, [(n, m, row, l)]))
      in result_graph c12)"

text \<open>
  The query of \<^verbatim>\<open>CommitFuncSecretScanStatus\<close>:
  \<^verbatim>\<open>UNWIND $batch as row MERGE (n:SecretScan{node_id: row.scan_id}) SET n.status = row.scan_status\<close>
\<close>

definition status_cypher :: string where
  "status_cypher = ''UNWIND $batch as row MERGE (n:SecretScan{node_id: row.scan_id}) SET n.status = row.scan_status''"

definition status_query :: "props list \<Rightarrow> graph \<Rightarrow> error + graph" where
  "status_query batch g0 =
     (let c1 = Inr (g0, batch);
          c2 = clause c1 (\<lambda>row g.
                 case merge_node g ''SecretScan'' [(''node_id'', get_prop row ''scan_id'')] of
                   Inl e \<Rightarrow> Inl e
                 | Inr (g', ns) \<Rightarrow> Inr (g', map (\<lambda>n. (row, n)) ns));
          c3 = clause c2 (\<lambda>(row, n) g.
                 Inr (set_prop g n ''status'' (get_prop row ''scan_status''), [(row, n)]))
      in result_graph c3)"

subsection \<open>The store behind a namespace, and the two commit functions\<close>

text \<open>
  What \<^verbatim>\<open>directory.Neo4jClient\<close>, the session and the transaction can do to the caller: each
  step may fail with an error of the store's. \<open>clock\<close> is what \<^verbatim>\<open>timestamp()\<close> reads
  during the next query, \<open>db\<close> the committed graph. The directory maps a namespace to its
  store.
\<close>

record store =
  neo4j_client_err :: "error option"
  begin_err :: "error option"
  run_err :: "error option"
  commit_err :: "error option"
  clock :: int
  db :: graph

type_synonym directory = "string \<Rightarrow> store"

text \<open>What the program asks of the directory and the driver, in order.\<close>

datatype event =
    EvNeo4jClient
  | EvSession
  | EvBeginTransaction
  | EvRun string "string list"
  | EvRunBatch string
  | EvCollect
  | EvCommit
  | EvTxClose
  | EvSessionClose

text \<open>\<^verbatim>\<open>tx.Run\<close> inside the open transaction: the writes stay in the transaction's graph.\<close>

definition tx_run :: "store \<Rightarrow> (graph \<Rightarrow> error + graph) \<Rightarrow> error + graph" where
  "tx_run st q = (case run_err st of Some err \<Rightarrow> Inl err | None \<Rightarrow> q (db st))"

text \<open>
  The result is the returned error (\<open>None\<close> is \<^verbatim>\<open>nil\<close>), the requests made, and the directory
  with the namespace's graph as the call leaves it: only a successful \<^verbatim>\<open>tx.Commit\<close> changes
  it, the deferred \<^verbatim>\<open>tx.Close\<close> rolls every other path back.
\<close>

definition CommitFuncSecrets :: "directory \<Rightarrow> string \<Rightarrow> Secret list \<Rightarrow> (error option \<times> event list) \<times> directory" where
  "CommitFuncSecrets dir ns data =
     (let st = dir ns in
      case neo4j_client_err st of
        Some err \<Rightarrow> ((Some err, [EvNeo4jClient]), dir)
      | None \<Rightarrow>
          (case begin_err st of
             Some err \<Rightarrow>
               ((Some err, [EvNeo4jClient, EvSession, EvBeginTransaction, EvSessionClose]), dir)
           | None \<Rightarrow>
               (case tx_run st (secrets_query (clock st) (secretsToMaps data)) of
                  Inl err \<Rightarrow>
                    ((Some err, [EvNeo4jClient, EvSession, EvBeginTransaction,
                                 EvRunBatch secrets_cypher, EvTxClose, EvSessionClose]), dir)
                | Inr g \<Rightarrow>
                    (case commit_err st of
                       Some err \<Rightarrow>
                         ((Some err, [EvNeo4jClient, EvSession, EvBeginTransaction,
                                      EvRunBatch secrets_cypher, EvCommit, EvTxClose,
                                      EvSessionClose]), dir)
                     | None \<Rightarrow>
                         ((None, [EvNeo4jClient, EvSession, EvBeginTransaction,
                                  EvRunBatch secrets_cypher, EvCommit, EvTxClose,
                                  EvSessionClose]), dir(ns := st\<lparr>db := g\<rparr>))))))"

definition CommitFuncSecretScanStatus :: "directory \<Rightarrow> string \<Rightarrow> SecretScanStatus list \<Rightarrow> (error option \<times> event list) \<times> directory" where
  "CommitFuncSecretScanStatus dir ns data =
     (let st = dir ns; err = neo4j_client_err st in
      if length data = 0 then ((None, [EvNeo4jClient]), dir)
      else
        (case err of
           Some err \<Rightarrow> ((Some err, [EvNeo4jClient]), dir)
         | None \<Rightarrow>
             (case begin_err st of
                Some err \<Rightarrow>
                  ((Some err, [EvNeo4jClient, EvSession, EvBeginTransaction, EvSessionClose]), dir)
              | None \<Rightarrow>
                  (case tx_run st (status_query (statusesToMaps data)) of
                     Inl err \<Rightarrow>
                       ((Some err, [EvNeo4jClient, EvSession, EvBeginTransaction,
                                    EvRunBatch status_cypher, EvTxClose, EvSessionClose]), dir)
                   | Inr g \<Rightarrow>
                       (case commit_err st of
                          Some err \<Rightarrow>
                            ((Some err, [EvNeo4jClient, EvSession, EvBeginTransaction,
                                         EvRunBatch status_cypher, EvCommit, EvTxClose,
                                         EvSessionClose]), dir)
                        | None \<Rightarrow>
                            ((None, [EvNeo4jClient, EvSession, EvBeginTransaction,
                                     EvRunBatch status_cypher, EvCommit, EvTxClose,
                                     EvSessionClose]), dir(ns := st\<lparr>db := g\<rparr>)))))))"

text \<open>Counting what a graph holds.\<close>

definition count_nodes :: "graph \<Rightarrow> string \<Rightarrow> nat" where
  "count_nodes g l = length (filter (\<lambda>nd. l \<in> set (labels nd)) (nodes g))"

definition count_edges :: "graph \<Rightarrow> string \<Rightarrow> nat" where
  "count_edges g t = length (filter (\<lambda>e. fst (snd e) = t) (edges g))"

section \<open>The reporters: \<^verbatim>\<open>deepfence_server/reporters/lookup/lookup.go\<close>\<close>

subsection \<open>The filter, the driver's records and the read side of the store\<close>

text \<open>\<open>Window\<close> is \<^verbatim>\<open>model.FetchWindow\<close> (offset, size); no function of the file reads it.\<close>

record LookupFilter =
  InFieldFilter :: "string list"
  NodeIds :: "string list"
  Window :: "int \<times> int"

text \<open>
  A \<^verbatim>\<open>neo4j.Record\<close>: the keys of the \<^verbatim>\<open>RETURN\<close> clause and their values, in order.
  \<^verbatim>\<open>rec.Get(key)\<close> is the value at the first position that carries the key, if any.
\<close>

record nrecord =
  Keys :: "string list"
  Values :: "val list"

fun lookup_key :: "string list \<Rightarrow> val list \<Rightarrow> string \<Rightarrow> val option" where
  "lookup_key (k # ks) (v # vs) key = (if key = k then Some v else lookup_key ks vs key)"
| "lookup_key ks vs key = None"

definition rec_Get :: "nrecord \<Rightarrow> string \<Rightarrow> val option" where
  "rec_Get rec key = lookup_key (Keys rec) (Values rec) key"

text \<open>
  The store as a read request sees it, reached through the \<^verbatim>\<open>ctx\<close> of the call: obtaining
  the client, opening the session and beginning the transaction may each fail;
  \<^verbatim>\<open>tx.Run(query, {"ids": ids})\<close> fails or gives a result, whose \<^verbatim>\<open>Collect\<close> fails or
  gives the records. The store answers a query the same way each time it is asked within
  one report.
\<close>

record reader =
  rd_client_err :: "error option"
  rd_session_err :: "error option"
  rd_begin_err :: "error option"
  rd_run :: "string \<Rightarrow> string list \<Rightarrow> error + (error + nrecord list)"

text \<open>
  A type parameter \<^verbatim>\<open>T\<close> of the generic functions: its \<^verbatim>\<open>NodeType()\<close> and the decoding
  \<^verbatim>\<open>utils.FromMap(m, &node)\<close> of a property map into a fresh \<^verbatim>\<open>T\<close>. Both belong to packages
  that are not among the sources, so they are parameters of everything below.
\<close>

record 'T Cypherable =
  nodeType :: string
  fromMap :: "props \<Rightarrow> 'T"

text \<open>\<^verbatim>\<open>strings.Join(xs, ",")\<close>.\<close>

fun join_comma :: "string list \<Rightarrow> string" where
  "join_comma [] = []"
| "join_comma [x] = x"
| "join_comma (x # y # ys) = x @ '','' @ join_comma (y # ys)"

text \<open>
  Modelled from the spec: \<^verbatim>\<open>reporters.FieldFilterCypher\<close> (package \<^verbatim>\<open>reporters\<close> is not among
  the sources). The query "projects either the full property bag or exactly the requested
  fields, in requested order": the node's name when no field is asked for, else the
  comma-separated \<^verbatim>\<open>name.field\<close> projections, which is how the source reads the result
  (\<^verbatim>\<open>rec.Get("n")\<close> in the first case, \<^verbatim>\<open>rec.Values[i]\<close> for the \<open>i\<close>-th field in the second).
  The functions below take the projection as a parameter \<open>ffc\<close>; this definition is the
  one the concrete runs use.
\<close>

definition FieldFilterCypher :: "string \<Rightarrow> string list \<Rightarrow> string" where
  "FieldFilterCypher node_name flds =
     (if flds = [] then node_name
      else join_comma (map (\<lambda>f. node_name @ ''.'' @ f) flds))"

text \<open>
  Modelled from the spec: \<^verbatim>\<open>model.Host\<close> (package \<^verbatim>\<open>model\<close> is not among the sources). The
  entity types are "typed views over a node's property bag"; only the fields the
  reporters read or assign are named, \<open>host_fields\<close> stands for the others, and the types
  of the related entities are parameters.
\<close>

record ('p, 'c, 'i, 'd) Host =
  host_ID :: string
  host_Processes :: "'p list"
  host_Containers :: "'c list"
  host_ContainerImages :: "'i list"
  host_Pods :: "'d list"
  host_fields :: props

text \<open>Modelled from the spec: \<^verbatim>\<open>model.Container\<close> (not among the sources), in the same way.\<close>

record ('p, 'i) Container =
  container_ID :: string
  container_Processes :: "'p list"
  container_ContainerImage :: 'i
  container_fields :: props

text \<open>Modelled from the spec: \<^verbatim>\<open>model.ContainerImage\<close> (not among the sources).\<close>

record 'c ContainerImage =
  image_ID :: string
  image_Containers :: "'c list"
  image_fields :: props

text \<open>Modelled from the spec: \<^verbatim>\<open>model.KubernetesCluster\<close> (not among the sources).\<close>

record 'h KubernetesCluster =
  cluster_ID :: string
  cluster_Hosts :: "'h list"
  cluster_fields :: props

text \<open>Modelled from the spec: \<^verbatim>\<open>model.RegistryAccount\<close> (not among the sources).\<close>

record 'i RegistryAccount =
  registry_ID :: string
  registry_ContainerImages :: "'i list"
  registry_fields :: props

text \<open>\<^verbatim>\<open>utils.InSlice(e, s)\<close> of the SDK: whether \<open>e\<close> occurs in \<open>s\<close>.\<close>

definition InSlice :: "'a \<Rightarrow> 'a list \<Rightarrow> bool" where
  "InSlice e s = (e \<in> set s)"

subsection \<open>\<^verbatim>\<open>getGenericDirectNodeReport\<close>\<close>

text \<open>
  The query text: the source's raw string without its leading white space and with each
  inner run of white space (line break and tabs) written as one blank.
\<close>

definition direct_query :: "string \<Rightarrow> (string \<Rightarrow> string list \<Rightarrow> string) \<Rightarrow> LookupFilter \<Rightarrow> string" where
  "direct_query node_type ffc fltr =
     (if length (NodeIds fltr) = 0
      then ''MATCH (n:'' @ node_type @ '') OPTIONAL MATCH (n) -[:IS]-> (e) RETURN ''
             @ ffc ''n'' (InFieldFilter fltr) @ '', e''
      else ''MATCH (n:'' @ node_type @ '') WHERE n.node_id IN $ids OPTIONAL MATCH (n) -[:IS]-> (e) RETURN ''
             @ ffc ''n'' (InFieldFilter fltr) @ '', e'')"

text \<open>
  \<^verbatim>\<open>for i := range filter.InFieldFilter { node_map[filter.InFieldFilter[i]] = rec.Values[i] }\<close>:
  reading past the end of \<^verbatim>\<open>rec.Values\<close> panics.
\<close>

fun fields_map :: "string list \<Rightarrow> val list \<Rightarrow> nat \<Rightarrow> props \<Rightarrow> error + props" where
  "fields_map [] vs i node_map = Inr node_map"
| "fields_map (f # fs) vs i node_map =
     (if i < length vs then fields_map fs vs (Suc i) (node_map(f \<mapsto> vs ! i))
      else Inl (Panic ''index out of range''))"

text \<open>
  The map a record starts from: \<open>Inr None\<close> is the \<^verbatim>\<open>continue\<close> of the loop
  ("Missing neo4j entry").
\<close>

definition primary_map :: "string list \<Rightarrow> nrecord \<Rightarrow> error + props option" where
  "primary_map flds rec =
     (if length flds = 0 then
        (case rec_Get rec ''n'' of
           None \<Rightarrow> Inr None
         | Some (VNode ps) \<Rightarrow> Inr (Some (map_of ps))
         | Some other \<Rightarrow> Inr None)
      else
        (case fields_map flds (Values rec) 0 Map.empty of
           Inl e \<Rightarrow> Inl e
         | Inr node_map \<Rightarrow> Inr (Some node_map)))"

text \<open>
  \<^verbatim>\<open>is_node, _ := rec.Get("e"); if is_node != nil { for k, v := range is_node.(dbtype.Node).Props
  { if k != "node_id" { node_map[k] = v } } }\<close>: the type assertion panics on a value that
  is neither \<^verbatim>\<open>nil\<close> nor a node.
\<close>

definition overlay_is :: "props \<Rightarrow> val option \<Rightarrow> error + props" where
  "overlay_is node_map is_node =
     (case is_node of
        None \<Rightarrow> Inr node_map
      | Some VNull \<Rightarrow> Inr node_map
      | Some (VNode ps) \<Rightarrow>
          Inr (\<lambda>k. if k \<noteq> ''node_id''
                   then (case map_of ps k of Some v \<Rightarrow> Some v | None \<Rightarrow> node_map k)
                   else node_map k)
      | Some other \<Rightarrow> Inl (Panic ''interface conversion''))"

text \<open>The map handed to \<^verbatim>\<open>utils.FromMap\<close> for one record.\<close>

definition record_map :: "string list \<Rightarrow> nrecord \<Rightarrow> error + props option" where
  "record_map flds rec =
     (case primary_map flds rec of
        Inl e \<Rightarrow> Inl e
      | Inr None \<Rightarrow> Inr None
      | Inr (Some node_map) \<Rightarrow>
          (case overlay_is node_map (rec_Get rec ''e'') of
             Inl e \<Rightarrow> Inl e
           | Inr node_map' \<Rightarrow> Inr (Some node_map')))"

fun map_records :: "'T Cypherable \<Rightarrow> string list \<Rightarrow> nrecord list \<Rightarrow> error + 'T list" where
  "map_records t flds [] = Inr []"
| "map_records t flds (rec # recs) =
     (case record_map flds rec of
        Inl e \<Rightarrow> Inl e
      | Inr None \<Rightarrow> map_records t flds recs
      | Inr (Some node_map) \<Rightarrow>
          (case map_records t flds recs of
             Inl e \<Rightarrow> Inl e
           | Inr res \<Rightarrow> Inr (fromMap t node_map # res)))"

text \<open>
  The result pairs the requests made, in order, with what the function returns (the
  source's \<^verbatim>\<open>(res, err)\<close> with a non-nil \<^verbatim>\<open>err\<close> is \<open>Inl err\<close>). The deferred closes run on
  every path once their resource is open.
\<close>

definition getGenericDirectNodeReport :: "'T Cypherable \<Rightarrow> (string \<Rightarrow> string list \<Rightarrow> string) \<Rightarrow> reader \<Rightarrow> LookupFilter \<Rightarrow> event list \<times> (error + 'T list)" where
  "getGenericDirectNodeReport t ffc ctx fltr =
     (case rd_client_err ctx of
        Some err \<Rightarrow> ([EvNeo4jClient], Inl err)
      | None \<Rightarrow>
          (case rd_session_err ctx of
             Some err \<Rightarrow> ([EvNeo4jClient, EvSession], Inl err)
           | None \<Rightarrow>
               (case rd_begin_err ctx of
                  Some err \<Rightarrow> ([EvNeo4jClient, EvSession, EvBeginTransaction, EvSessionClose], Inl err)
                | None \<Rightarrow>
                    (let query = direct_query (nodeType t) ffc fltr;
                         opened = [EvNeo4jClient, EvSession, EvBeginTransaction,
                                   EvRun query (NodeIds fltr)]
                     in case rd_run ctx query (NodeIds fltr) of
                          Inl err \<Rightarrow> (opened @ [EvTxClose, EvSessionClose], Inl err)
                        | Inr r \<Rightarrow>
                            (case r of
                               Inl err \<Rightarrow> (opened @ [EvCollect, EvTxClose, EvSessionClose], Inl err)
                             | Inr recs \<Rightarrow>
                                 (opened @ [EvCollect, EvTxClose, EvSessionClose],
                                  map_records t (InFieldFilter fltr) recs))))))"

subsection \<open>\<^verbatim>\<open>getIndirectFromIDs\<close> and the relation queries\<close>

fun collect_m :: "'T Cypherable \<Rightarrow> nrecord list \<Rightarrow> 'T list" where
  "collect_m t [] = []"
| "collect_m t (rec # recs) =
     (case rec_Get rec ''m'' of
        None \<Rightarrow> collect_m t recs
      | Some (VNode ps) \<Rightarrow> fromMap t (map_of ps) # collect_m t recs
      | Some other \<Rightarrow> collect_m t recs)"

definition getIndirectFromIDs :: "'T Cypherable \<Rightarrow> reader \<Rightarrow> string \<Rightarrow> string list \<Rightarrow> event list \<times> (error + 'T list)" where
  "getIndirectFromIDs t ctx query ids =
     (case rd_client_err ctx of
        Some err \<Rightarrow> ([EvNeo4jClient], Inl err)
      | None \<Rightarrow>
          (case rd_session_err ctx of
             Some err \<Rightarrow> ([EvNeo4jClient, EvSession], Inl err)
           | None \<Rightarrow>
               (case rd_begin_err ctx of
                  Some err \<Rightarrow> ([EvNeo4jClient, EvSession, EvBeginTransaction, EvSessionClose], Inl err)
                | None \<Rightarrow>
                    (let opened = [EvNeo4jClient, EvSession, EvBeginTransaction, EvRun query ids]
                     in case rd_run ctx query ids of
                          Inl err \<Rightarrow> (opened @ [EvTxClose, EvSessionClose], Inl err)
                        | Inr r \<Rightarrow>
                            (case r of
                               Inl err \<Rightarrow> (opened @ [EvCollect, EvTxClose, EvSessionClose], Inl err)
                             | Inr recs \<Rightarrow>
                                 (opened @ [EvCollect, EvTxClose, EvSessionClose],
                                  Inr (collect_m t recs)))))))"

text \<open>The texts of the relation queries, white space treated as in \<open>direct_query\<close>.\<close>

definition host_containers_cypher :: string where
  "host_containers_cypher = ''MATCH (n:Node) -[:HOSTS]-> (m:Container) WHERE n.node_id IN $ids RETURN m''"

definition host_pods_cypher :: string where
  "host_pods_cypher = ''MATCH (n:Node) -[:HOSTS]-> (m:Pod) WHERE n.node_id IN $ids RETURN m''"

definition host_container_images_cypher :: string where
  "host_container_images_cypher = ''MATCH (n:Node) -[:HOSTS]-> (m:ContainerImage) WHERE n.node_id IN $ids RETURN m''"

definition registry_images_cypher :: string where
  "registry_images_cypher = ''MATCH (n:RegistryAccount) -[:HOSTS]-> (m:ContainerImage) WHERE n.node_id IN $ids RETURN m''"

definition host_processes_cypher :: string where
  "host_processes_cypher = ''MATCH (n:Node) -[:HOSTS]-> (m:Process) WHERE n.node_id IN $ids RETURN m''"

definition container_processes_cypher :: string where
  "container_processes_cypher = ''MATCH (n:Container) -[:HOSTS]-> (m:Process) WHERE n.node_id IN $ids RETURN m''"

definition container_container_images_cypher :: string where
  "container_container_images_cypher = ''MATCH (n:Container) WHERE n.node_id IN $ids MATCH (m:ContainerImage{node_id:n.docker_image_id}) RETURN m''"

definition container_image_containers_cypher :: string where
  "container_image_containers_cypher = ''MATCH (n:ContainerImage) WHERE n.node_id in $ids RETURN n''"

definition cluster_hosts_cypher :: string where
  "cluster_hosts_cypher = ''MATCH (m:KubernetesCluster) -[:INSTANCIATE]-> (n:Node) WHERE m.node_id IN $ids RETURN n''"

definition getHostContainers :: "'c Cypherable \<Rightarrow> reader \<Rightarrow> ('p, 'c, 'i, 'd) Host \<Rightarrow> event list \<times> (error + 'c list)" where
  "getHostContainers t ctx host = getIndirectFromIDs t ctx host_containers_cypher [host_ID host]"

definition getHostPods :: "'d Cypherable \<Rightarrow> reader \<Rightarrow> ('p, 'c, 'i, 'd) Host \<Rightarrow> event list \<times> (error + 'd list)" where
  "getHostPods t ctx host = getIndirectFromIDs t ctx host_pods_cypher [host_ID host]"

definition getHostContainerImages :: "'i Cypherable \<Rightarrow> reader \<Rightarrow> ('p, 'c, 'i, 'd) Host \<Rightarrow> event list \<times> (error + 'i list)" where
  "getHostContainerImages t ctx host = getIndirectFromIDs t ctx host_container_images_cypher [host_ID host]"

definition getRegistryImages :: "'i Cypherable \<Rightarrow> reader \<Rightarrow> 'i RegistryAccount \<Rightarrow> event list \<times> (error + 'i list)" where
  "getRegistryImages t ctx registry = getIndirectFromIDs t ctx registry_images_cypher [registry_ID registry]"

definition getHostProcesses :: "'p Cypherable \<Rightarrow> reader \<Rightarrow> ('p, 'c, 'i, 'd) Host \<Rightarrow> event list \<times> (error + 'p list)" where
  "getHostProcesses t ctx host = getIndirectFromIDs t ctx host_processes_cypher [host_ID host]"

definition getContainerProcesses :: "'p Cypherable \<Rightarrow> reader \<Rightarrow> ('p, 'i) Container \<Rightarrow> event list \<times> (error + 'p list)" where
  "getContainerProcesses t ctx container = getIndirectFromIDs t ctx container_processes_cypher [container_ID container]"

definition getContainerContainerImages :: "'i Cypherable \<Rightarrow> reader \<Rightarrow> ('p, 'i) Container \<Rightarrow> event list \<times> (error + 'i list)" where
  "getContainerContainerImages t ctx container =
     getIndirectFromIDs t ctx container_container_images_cypher [container_ID container]"

definition getContainerImageContainers :: "'c Cypherable \<Rightarrow> reader \<Rightarrow> 'c ContainerImage \<Rightarrow> event list \<times> (error + 'c list)" where
  "getContainerImageContainers t ctx img =
     getIndirectFromIDs t ctx container_image_containers_cypher [image_ID img]"

definition getClusterHosts :: "'h Cypherable \<Rightarrow> reader \<Rightarrow> 'h KubernetesCluster \<Rightarrow> event list \<times> (error + 'h list)" where
  "getClusterHosts t ctx cluster = getIndirectFromIDs t ctx cluster_hosts_cypher [cluster_ID cluster]"

subsection \<open>The report functions\<close>

text \<open>
  \<^verbatim>\<open>for i := range xs { ... xs[i] ... }\<close>: the body turns each element into its enriched
  self, and the requests of the bodies follow one another.
\<close>

fun for_each :: "('e \<Rightarrow> event list \<times> 'e) \<Rightarrow> 'e list \<Rightarrow> event list \<times> 'e list" where
  "for_each body [] = ([], [])"
| "for_each body (x # xs) =
     (case body x of
        (tr, x') \<Rightarrow> (case for_each body xs of (trs, xs') \<Rightarrow> (tr @ trs, x' # xs')))"

text \<open>
  The four flags of \<^verbatim>\<open>GetHostsReport\<close>, in the order
  (\<^verbatim>\<open>getProcesses\<close>, \<^verbatim>\<open>getContainerImages\<close>, \<^verbatim>\<open>getContainers\<close>, \<^verbatim>\<open>getPods\<close>).
\<close>

definition host_flags :: "LookupFilter \<Rightarrow> bool \<times> bool \<times> bool \<times> bool" where
  "host_flags fltr =
     (if length (InFieldFilter fltr) = 0 then (True, True, True, True)
      else (InSlice ''processes'' (InFieldFilter fltr),
            InSlice ''container_images'' (InFieldFilter fltr),
            InSlice ''containers'' (InFieldFilter fltr),
            InSlice ''pods'' (InFieldFilter fltr)))"

text \<open>The body of the loop of \<^verbatim>\<open>GetHostsReport\<close> for one host.\<close>

definition enrich_host :: "'p Cypherable \<Rightarrow> 'c Cypherable \<Rightarrow> 'i Cypherable \<Rightarrow> 'd Cypherable \<Rightarrow> reader \<Rightarrow> bool \<times> bool \<times> bool \<times> bool \<Rightarrow> ('p, 'c, 'i, 'd) Host \<Rightarrow> event list \<times> ('p, 'c, 'i, 'd) Host" where
  "enrich_host tp tc ti td ctx flags h0 =
     (case flags of (getProcesses, getContainerImages, getContainers, getPods) \<Rightarrow>
      (case (if getProcesses
             then (case getHostProcesses tp ctx h0 of
                     (tr, Inr processes) \<Rightarrow> (tr, h0\<lparr>host_Processes := processes\<rparr>)
                   | (tr, Inl err) \<Rightarrow> (tr, h0))
             else ([], h0)) of
         (tr1, h1) \<Rightarrow>
      (case (if getContainers
             then (case getHostContainers tc ctx h1 of
                     (tr, Inr containers) \<Rightarrow> (tr, h1\<lparr>host_Containers := containers\<rparr>)
                   | (tr, Inl err) \<Rightarrow> (tr, h1))
             else ([], h1)) of
         (tr2, h2) \<Rightarrow>
      (case (if getContainerImages
             then (case getHostContainerImages ti ctx h2 of
                     (tr, Inr containerImages) \<Rightarrow> (tr, h2\<lparr>host_ContainerImages := containerImages\<rparr>)
                   | (tr, Inl err) \<Rightarrow> (tr, h2))
             else ([], h2)) of
         (tr3, h3) \<Rightarrow>
      (case (if getPods
             then (case getHostPods td ctx h3 of
                     (tr, Inr pods) \<Rightarrow> (tr, h3\<lparr>host_Pods := pods\<rparr>)
                   | (tr, Inl err) \<Rightarrow> (tr, h3))
             else ([], h3)) of
         (tr4, h4) \<Rightarrow> (tr1 @ tr2 @ tr3 @ tr4, h4))))))"

definition GetHostsReport :: "(('p, 'c, 'i, 'd) Host) Cypherable \<Rightarrow> 'p Cypherable \<Rightarrow> 'c Cypherable \<Rightarrow> 'i Cypherable \<Rightarrow> 'd Cypherable \<Rightarrow> (string \<Rightarrow> string list \<Rightarrow> string) \<Rightarrow> reader \<Rightarrow> LookupFilter \<Rightarrow> event list \<times> (error + ('p, 'c, 'i, 'd) Host list)" where
  "GetHostsReport th tp tc ti td ffc ctx fltr =
     (case getGenericDirectNodeReport th ffc ctx fltr of
        (tr, Inl err) \<Rightarrow> (tr, Inl err)
      | (tr, Inr hosts) \<Rightarrow>
          (case for_each (enrich_host tp tc ti td ctx (host_flags fltr)) hosts of
             (tr', hosts') \<Rightarrow> (tr @ tr', Inr hosts')))"

text \<open>The flags of \<^verbatim>\<open>GetContainersReport\<close>: (\<^verbatim>\<open>getProcesses\<close>, \<^verbatim>\<open>getContainerImages\<close>).\<close>

definition container_flags :: "LookupFilter \<Rightarrow> bool \<times> bool" where
  "container_flags fltr =
     (if length (InFieldFilter fltr) = 0 then (True, True)
      else (InSlice ''processes'' (InFieldFilter fltr), InSlice ''image'' (InFieldFilter fltr)))"

definition enrich_container :: "'p Cypherable \<Rightarrow> 'i Cypherable \<Rightarrow> reader \<Rightarrow> bool \<times> bool \<Rightarrow> ('p, 'i) Container \<Rightarrow> event list \<times> ('p, 'i) Container" where
  "enrich_container tp ti ctx flags c0 =
     (case flags of (getProcesses, getContainerImages) \<Rightarrow>
      (case (if getProcesses
             then (case getContainerProcesses tp ctx c0 of
                     (tr, Inr processes) \<Rightarrow> (tr, c0\<lparr>container_Processes := processes\<rparr>)
                   | (tr, Inl err) \<Rightarrow> (tr, c0))
             else ([], c0)) of
         (tr1, c1) \<Rightarrow>
      (case (if getContainerImages
             then (case getContainerContainerImages ti ctx c1 of
                     (tr, Inr images) \<Rightarrow>
                       (case images of
                          [] \<Rightarrow> (tr, c1)
                        | i0 # rest \<Rightarrow> (tr, c1\<lparr>container_ContainerImage := i0\<rparr>))
                   | (tr, Inl err) \<Rightarrow> (tr, c1))
             else ([], c1)) of
         (tr2, c2) \<Rightarrow> (tr1 @ tr2, c2))))"

definition GetContainersReport :: "(('p, 'i) Container) Cypherable \<Rightarrow> 'p Cypherable \<Rightarrow> 'i Cypherable \<Rightarrow> (string \<Rightarrow> string list \<Rightarrow> string) \<Rightarrow> reader \<Rightarrow> LookupFilter \<Rightarrow> event list \<times> (error + ('p, 'i) Container list)" where
  "GetContainersReport tc tp ti ffc ctx fltr =
     (case getGenericDirectNodeReport tc ffc ctx fltr of
        (tr, Inl err) \<Rightarrow> (tr, Inl err)
      | (tr, Inr containers) \<Rightarrow>
          (case for_each (enrich_container tp ti ctx (container_flags fltr)) containers of
             (tr', containers') \<Rightarrow> (tr @ tr', Inr containers')))"

text \<open>The flag \<^verbatim>\<open>getContainers\<close> of \<^verbatim>\<open>GetContainerImagesReport\<close>.\<close>

definition image_flag :: "LookupFilter \<Rightarrow> bool" where
  "image_flag fltr =
     (if length (InFieldFilter fltr) = 0 then True else InSlice ''image'' (InFieldFilter fltr))"

definition enrich_image :: "'c Cypherable \<Rightarrow> reader \<Rightarrow> bool \<Rightarrow> 'c ContainerImage \<Rightarrow> event list \<times> 'c ContainerImage" where
  "enrich_image tc ctx getContainers i0 =
     (if getContainers
      then (case getContainerImageContainers tc ctx i0 of
              (tr, Inr containers) \<Rightarrow> (tr, i0\<lparr>image_Containers := containers\<rparr>)
            | (tr, Inl err) \<Rightarrow> (tr, i0))
      else ([], i0))"

definition GetContainerImagesReport :: "('c ContainerImage) Cypherable \<Rightarrow> 'c Cypherable \<Rightarrow> (string \<Rightarrow> string list \<Rightarrow> string) \<Rightarrow> reader \<Rightarrow> LookupFilter \<Rightarrow> event list \<times> (error + 'c ContainerImage list)" where
  "GetContainerImagesReport ti tc ffc ctx fltr =
     (case getGenericDirectNodeReport ti ffc ctx fltr of
        (tr, Inl err) \<Rightarrow> (tr, Inl err)
      | (tr, Inr images) \<Rightarrow>
          (case for_each (enrich_image tc ctx (image_flag fltr)) images of
             (tr', images') \<Rightarrow> (tr @ tr', Inr images')))"

text \<open>The flag \<^verbatim>\<open>getHosts\<close> of \<^verbatim>\<open>GetKubernetesClustersReport\<close>.\<close>

definition cluster_flag :: "LookupFilter \<Rightarrow> bool" where
  "cluster_flag fltr =
     (if length (InFieldFilter fltr) = 0 then True else InSlice ''hosts'' (InFieldFilter fltr))"

definition enrich_cluster :: "'h Cypherable \<Rightarrow> reader \<Rightarrow> bool \<Rightarrow> 'h KubernetesCluster \<Rightarrow> event list \<times> 'h KubernetesCluster" where
  "enrich_cluster th ctx getHosts c0 =
     (if getHosts
      then (case getClusterHosts th ctx c0 of
              (tr, Inr hosts) \<Rightarrow> (tr, c0\<lparr>cluster_Hosts := hosts\<rparr>)
            | (tr, Inl err) \<Rightarrow> (tr, c0))
      else ([], c0))"

definition GetKubernetesClustersReport :: "('h KubernetesCluster) Cypherable \<Rightarrow> 'h Cypherable \<Rightarrow> (string \<Rightarrow> string list \<Rightarrow> string) \<Rightarrow> reader \<Rightarrow> LookupFilter \<Rightarrow> event list \<times> (error + 'h KubernetesCluster list)" where
  "GetKubernetesClustersReport tk th ffc ctx fltr =
     (case getGenericDirectNodeReport tk ffc ctx fltr of
        (tr, Inl err) \<Rightarrow> (tr, Inl err)
      | (tr, Inr clusters) \<Rightarrow>
          (case for_each (enrich_cluster th ctx (cluster_flag fltr)) clusters of
             (tr', clusters') \<Rightarrow> (tr @ tr', Inr clusters')))"

text \<open>
  The loop of \<^verbatim>\<open>GetRegistryAccountReport\<close>: it returns \<^verbatim>\<open>nil, err\<close> at the first registry
  whose images cannot be fetched.
\<close>

fun registry_loop :: "'i Cypherable \<Rightarrow> reader \<Rightarrow> 'i RegistryAccount list \<Rightarrow> event list \<times> (error + 'i RegistryAccount list)" where
  "registry_loop ti ctx [] = ([], Inr [])"
| "registry_loop ti ctx (r # rs) =
     (case getRegistryImages ti ctx r of
        (tr, Inl err) \<Rightarrow> (tr, Inl err)
      | (tr, Inr container_images) \<Rightarrow>
          (case registry_loop ti ctx rs of
             (trs, Inl err) \<Rightarrow> (tr @ trs, Inl err)
           | (trs, Inr rs') \<Rightarrow>
               (tr @ trs, Inr (r\<lparr>registry_ContainerImages := container_images\<rparr> # rs'))))"

definition GetRegistryAccountReport :: "('i RegistryAccount) Cypherable \<Rightarrow> 'i Cypherable \<Rightarrow> (string \<Rightarrow> string list \<Rightarrow> string) \<Rightarrow> reader \<Rightarrow> LookupFilter \<Rightarrow> event list \<times> (error + 'i RegistryAccount list)" where
  "GetRegistryAccountReport tg ti ffc ctx fltr =
     (case getGenericDirectNodeReport tg ffc ctx fltr of
        (tr, Inl err) \<Rightarrow> (tr, Inl err)
      | (tr, Inr registry) \<Rightarrow>
          (case registry_loop ti ctx registry of
             (tr', res) \<Rightarrow> (tr @ tr', res)))"

text \<open>The \<^verbatim>\<open>tx.Run\<close> requests of a trace: query text and \<^verbatim>\<open>$ids\<close>, in order.\<close>

fun runs :: "event list \<Rightarrow> (string \<times> string list) list" where
  "runs [] = []"
| "runs (EvRun q ids # evs) = (q, ids) # runs evs"
| "runs (ev # evs) = runs evs"

section \<open>Concrete inputs\<close>

subsection \<open>For the ingester\<close>

text \<open>
  One finding: rule 1 matched on host \<open>h1\<close>, reported by the agent under node id \<open>s1\<close>
  during scan \<open>scan1\<close>; and one scan status.
\<close>

definition secret0 :: Secret where
  "secret0 =
     \<lparr>Timestamp = 0, ImageLayerID = '''',
      Match = \<lparr>StartingIndex = 0, RelativeStartingIndex = 0, RelativeEndingIndex = 0,
               FullFilename = ''f'', MatchedContent = ''c''\<rparr>,
      Rule = \<lparr>ID = 1, Name = ''r'', Part = ''p'', SignatureToMatch = ''sig''\<rparr>,
      Severity = \<lparr>Level = ''high'', Score = 0\<rparr>,
      ContainerName = '''', HostName = ''h1'', KubernetesClusterName = '''', Masked = ''false'',
      NodeID = ''s1'', NodeName = ''h1'', NodeType = ''host'', ScanID = ''scan1''\<rparr>"

definition status0 :: SecretScanStatus where
  "status0 =
     \<lparr>Timestamp_st = 0, ContainerName_st = '''', HostName_st = ''h1'',
      KubernetesClusterName_st = '''', Masked_st = ''false'', NodeID_st = ''h1'',
      NodeName_st = ''h1'', NodeType_st = ''host'', ScanID_st = ''scan1'',
      ScanStatus_st = ''COMPLETE''\<rparr>"

text \<open>An empty graph, and a graph in which discovery has already created the host \<open>h1\<close>.\<close>

definition empty_graph :: graph where
  "empty_graph = \<lparr>nodes = [], edges = []\<rparr>"

definition host_graph :: graph where
  "host_graph =
     \<lparr>nodes = [\<lparr>labels = [''Node''], node_props = [''node_id'' \<mapsto> VStr ''h1'']\<rparr>], edges = []\<rparr>"

text \<open>A store that never fails, with its clock and graph; a directory whose store cannot be reached.\<close>

definition store_of :: "int \<Rightarrow> graph \<Rightarrow> store" where
  "store_of t g =
     \<lparr>neo4j_client_err = None, begin_err = None, run_err = None, commit_err = None,
      clock = t, db = g\<rparr>"

definition dir_no_host :: directory where
  "dir_no_host = (\<lambda>ns. store_of 1000 empty_graph)"

definition dir_host :: directory where
  "dir_host = (\<lambda>ns. store_of 1000 host_graph)"

definition unreachable :: directory where
  "unreachable = (\<lambda>ns. (store_of 0 empty_graph)\<lparr>neo4j_client_err := Some (StoreError ''unreachable'')\<rparr>)"

text \<open>The same directory when \<^verbatim>\<open>timestamp()\<close> has moved on to \<open>t\<close>.\<close>

definition at_time :: "int \<Rightarrow> directory \<Rightarrow> directory" where
  "at_time t dir = (\<lambda>ns. (dir ns)\<lparr>clock := t\<rparr>)"

text \<open>The numbers of Rule, Secret and SecretScan nodes, and of IS, DETECTED and SCANNED edges.\<close>

definition node_counts :: "graph \<Rightarrow> nat \<times> nat \<times> nat" where
  "node_counts g = (count_nodes g ''Rule'', count_nodes g ''Secret'', count_nodes g ''SecretScan'')"

definition edge_counts :: "graph \<Rightarrow> nat \<times> nat \<times> nat" where
  "edge_counts g = (count_edges g ''IS'', count_edges g ''DETECTED'', count_edges g ''SCANNED'')"

subsection \<open>For the reporters\<close>

text \<open>
  Decoders for the concrete runs: a related entity is decoded to its \<open>node_id\<close>; a host and
  a registry account take their id from \<open>node_id\<close>, start with empty relations and keep the
  map.
\<close>

definition node_id_of :: "props \<Rightarrow> string" where
  "node_id_of m = (case m ''node_id'' of Some (VStr s) \<Rightarrow> s | _ \<Rightarrow> '''')"

definition related_t :: "string \<Rightarrow> string Cypherable" where
  "related_t l = \<lparr>nodeType = l, fromMap = node_id_of\<rparr>"

definition host_t :: "((string, string, string, string) Host) Cypherable" where
  "host_t =
     \<lparr>nodeType = ''Node'',
      fromMap = (\<lambda>m. \<lparr>host_ID = node_id_of m, host_Processes = [], host_Containers = [],
                        host_ContainerImages = [], host_Pods = [], host_fields = m\<rparr>)\<rparr>"

definition registry_t :: "(string RegistryAccount) Cypherable" where
  "registry_t =
     \<lparr>nodeType = ''RegistryAccount'',
      fromMap = (\<lambda>m. \<lparr>registry_ID = node_id_of m, registry_ContainerImages = [],
                        registry_fields = m\<rparr>)\<rparr>"

definition host_of :: "string \<Rightarrow> (string, string, string, string) Host" where
  "host_of i = fromMap host_t (map_of [(''node_id'', VStr i)])"

definition registry_of :: "string \<Rightarrow> string RegistryAccount" where
  "registry_of i = fromMap registry_t (map_of [(''node_id'', VStr i)])"

text \<open>
  A store that holds the nodes \<open>page\<close> of the requested label, none of them classified: the
  query without ids returns them all; a relation query returns, for each id \<open>i\<close>, one
  related node \<open>i/x\<close>, except the query \<open>failing\<close>, which the store refuses.
\<close>

definition page_reader :: "string list \<Rightarrow> string \<Rightarrow> reader" where
  "page_reader page failing =
     \<lparr>rd_client_err = None, rd_session_err = None, rd_begin_err = None,
      rd_run = (\<lambda>q ids.
        if ids = [] then
          Inr (Inr (map (\<lambda>i. \<lparr>Keys = [''n'', ''e''],
                               Values = [VNode [(''node_id'', VStr i)], VNull]\<rparr>) page))
        else if q = failing then Inl (StoreError ''relation query failed'')
        else Inr (Inr (map (\<lambda>i. \<lparr>Keys = [''m''],
                                    Values = [VNode [(''node_id'', VStr (i @ ''/x''))]]\<rparr>) ids)))\<rparr>"

definition all_fields :: LookupFilter where
  "all_fields = \<lparr>InFieldFilter = [], NodeIds = [], Window = (0, 0)\<rparr>"

definition only_processes :: LookupFilter where
  "only_processes = \<lparr>InFieldFilter = [''processes''], NodeIds = [''h1''], Window = (0, 0)\<rparr>"

definition bogus_field :: LookupFilter where
  "bogus_field = \<lparr>InFieldFilter = [''bogus''], NodeIds = [], Window = (0, 0)\<rparr>"

text \<open>
  A store in which host \<open>h1\<close> hosts the process \<open>p1\<close>. The host has no property
  \<open>processes\<close> and no classification, so the lookup of \<open>only_processes\<close> (the projection
  \<^verbatim>\<open>n.processes\<close> of the node with id \<open>h1\<close>) returns one record with two nulls; the processes
  query returns \<open>p1\<close> when it is asked for the id \<open>h1\<close>; every other query returns nothing.
\<close>

definition hosting_reader :: reader where
  "hosting_reader =
     \<lparr>rd_client_err = None, rd_session_err = None, rd_begin_err = None,
      rd_run = (\<lambda>q ids.
        if q = direct_query ''Node'' FieldFilterCypher only_processes \<and> ids = [''h1''] then
          Inr (Inr [\<lparr>Keys = [''n.processes'', ''e''], Values = [VNull, VNull]\<rparr>])
        else if q = host_processes_cypher \<and> ids = [''h1''] then
          Inr (Inr [\<lparr>Keys = [''m''], Values = [VNode [(''node_id'', VStr ''p1'')]]\<rparr>])
        else Inr (Inr []))\<rparr>"


section \<open>Properties of the ingester\<close>

subsection \<open>The flattened finding\<close>

lemma secret_map_rule_id:
  "secret_map i ''rule_id'' = Some (VStr (show_int (ID (Rule i)) @ '':'' @ HostName i))"
  by (simp add: secret_map_def Sprintf_v_colon_v_def)

lemma secret_map_severity: "ToMap_Severity (Severity i) k = Some v \<Longrightarrow> secret_map i k = Some v"
  by (auto simp add: secret_map_def ToMap_Severity_def Severity_entries_def ToMap_Match_def
        Match_entries_def map_add_def split: if_splits)

lemma secret_map_match: "ToMap_Match (Match i) k = Some v \<Longrightarrow> secret_map i k = Some v"
  by (auto simp add: secret_map_def ToMap_Match_def Match_entries_def map_add_def split: if_splits)

lemma secret_map_nested_removed:
  "secret_map i ''Rule'' = None \<and> secret_map i ''Match'' = None \<and> secret_map i ''Severity'' = None"
  by (simp add: secret_map_def ToMap_Severity_def Severity_entries_def ToMap_Match_def
        Match_entries_def map_add_def)

lemma secret_map_no_rule_props:
  "secret_map i ''id'' = None \<and> secret_map i ''name'' = None \<and> secret_map i ''part'' = None \<and>
   secret_map i ''signature_to_match'' = None"
  by (simp add: secret_map_def ToMap_Severity_def Severity_entries_def ToMap_Match_def
        Match_entries_def ToMap_Secret_def Secret_entries_def map_add_def)

lemma show_int_1: "show_int 1 = ''1''"
  by code_simp

section \<open>Properties of the reporters\<close>

subsection \<open>Loops and traces\<close>

lemma for_each_eq:
  "for_each body xs = (concat (map (\<lambda>x. fst (body x)) xs), map (\<lambda>x. snd (body x)) xs)"
  by (induction xs) (auto split: prod.splits)

lemma runs_append: "runs (xs @ ys) = runs xs @ runs ys"
  by (induction xs rule: runs.induct) auto

lemma runs_concat: "runs (concat xss) = concat (map runs xss)"
  by (induction xss) (auto simp: runs_append)

lemma length_concat_const:
  "(\<And>x. length (f x) = n) \<Longrightarrow> length (concat (map f xs)) = length xs * n"
  by (induction xs) auto

lemma pair_of_snd: "snd p = b \<Longrightarrow> p = (fst p, b)"
  by (cases p) simp

subsection \<open>The two generic queries\<close>

lemma direct_ok_handles:
  "snd (getGenericDirectNodeReport t ffc ctx fltr) = Inr xs \<Longrightarrow>
     rd_client_err ctx = None \<and> rd_session_err ctx = None \<and> rd_begin_err ctx = None"
  by (auto simp: getGenericDirectNodeReport_def Let_def split: option.splits sum.splits)

lemma indirect_runs:
  "rd_client_err ctx = None \<Longrightarrow> rd_session_err ctx = None \<Longrightarrow> rd_begin_err ctx = None \<Longrightarrow>
     runs (fst (getIndirectFromIDs t ctx q ids)) = [(q, ids)]"
  by (auto simp: getIndirectFromIDs_def Let_def split: option.splits sum.splits)

lemma fields_map_panics: "fields_map fs vs i m = Inl e \<Longrightarrow> \<exists>msg. e = Panic msg"
  by (induction fs vs i m rule: fields_map.induct) (auto split: if_splits)

lemma record_map_panics: "record_map flds rec = Inl e \<Longrightarrow> \<exists>msg. e = Panic msg"
  by (auto simp: record_map_def primary_map_def overlay_is_def
        split: if_splits option.splits val.splits sum.splits dest: fields_map_panics)

lemma map_records_panics: "map_records t flds recs = Inl e \<Longrightarrow> \<exists>msg. e = Panic msg"
  by (induction recs arbitrary: e)
     (auto split: sum.splits option.splits dest: record_map_panics)

subsection \<open>One pass of each loop body\<close>

lemma enrich_host_fst:
  "fst (enrich_host tp tc ti td ctx (a, b, c, d) h) =
     (if a then fst (getHostProcesses tp ctx h) else []) @
     (if c then fst (getHostContainers tc ctx h) else []) @
     (if b then fst (getHostContainerImages ti ctx h) else []) @
     (if d then fst (getHostPods td ctx h) else [])"
proof -
  obtain t1 r1 where p1: "getIndirectFromIDs tp ctx host_processes_cypher [host_ID h] = (t1, r1)"
    by (cases "getIndirectFromIDs tp ctx host_processes_cypher [host_ID h]")
  obtain t2 r2 where p2: "getIndirectFromIDs tc ctx host_containers_cypher [host_ID h] = (t2, r2)"
    by (cases "getIndirectFromIDs tc ctx host_containers_cypher [host_ID h]")
  obtain t3 r3 where p3: "getIndirectFromIDs ti ctx host_container_images_cypher [host_ID h] = (t3, r3)"
    by (cases "getIndirectFromIDs ti ctx host_container_images_cypher [host_ID h]")
  obtain t4 r4 where p4: "getIndirectFromIDs td ctx host_pods_cypher [host_ID h] = (t4, r4)"
    by (cases "getIndirectFromIDs td ctx host_pods_cypher [host_ID h]")
  show ?thesis
    by (cases r1; cases r2; cases r3; cases r4)
       (simp_all add: enrich_host_def getHostProcesses_def getHostContainers_def
          getHostContainerImages_def getHostPods_def p1 p2 p3 p4)
qed

lemma enrich_host_snd:
  "snd (enrich_host tp tc ti td ctx (a, b, c, d) h) =
     h\<lparr>host_Processes :=
          (if a then (case snd (getHostProcesses tp ctx h) of
                        Inr v \<Rightarrow> v | Inl e \<Rightarrow> host_Processes h)
           else host_Processes h),
       host_Containers :=
          (if c then (case snd (getHostContainers tc ctx h) of
                        Inr v \<Rightarrow> v | Inl e \<Rightarrow> host_Containers h)
           else host_Containers h),
       host_ContainerImages :=
          (if b then (case snd (getHostContainerImages ti ctx h) of
                        Inr v \<Rightarrow> v | Inl e \<Rightarrow> host_ContainerImages h)
           else host_ContainerImages h),
       host_Pods :=
          (if d then (case snd (getHostPods td ctx h) of
                        Inr v \<Rightarrow> v | Inl e \<Rightarrow> host_Pods h)
           else host_Pods h)\<rparr>"
proof -
  obtain t1 r1 where p1: "getIndirectFromIDs tp ctx host_processes_cypher [host_ID h] = (t1, r1)"
    by (cases "getIndirectFromIDs tp ctx host_processes_cypher [host_ID h]")
  obtain t2 r2 where p2: "getIndirectFromIDs tc ctx host_containers_cypher [host_ID h] = (t2, r2)"
    by (cases "getIndirectFromIDs tc ctx host_containers_cypher [host_ID h]")
  obtain t3 r3 where p3: "getIndirectFromIDs ti ctx host_container_images_cypher [host_ID h] = (t3, r3)"
    by (cases "getIndirectFromIDs ti ctx host_container_images_cypher [host_ID h]")
  obtain t4 r4 where p4: "getIndirectFromIDs td ctx host_pods_cypher [host_ID h] = (t4, r4)"
    by (cases "getIndirectFromIDs td ctx host_pods_cypher [host_ID h]")
  show ?thesis
    by (cases r1; cases r2; cases r3; cases r4)
       (simp_all add: enrich_host_def getHostProcesses_def getHostContainers_def
          getHostContainerImages_def getHostPods_def p1 p2 p3 p4)
qed

lemma enrich_container_snd:
  "snd (enrich_container tp ti ctx (a, b) c) =
     c\<lparr>container_Processes :=
          (if a then (case snd (getContainerProcesses tp ctx c) of
                        Inr v \<Rightarrow> v | Inl e \<Rightarrow> container_Processes c)
           else container_Processes c),
       container_ContainerImage :=
          (if b then (case snd (getContainerContainerImages ti ctx c) of
                        Inr (i0 # rest) \<Rightarrow> i0
                      | Inr [] \<Rightarrow> container_ContainerImage c
                      | Inl e \<Rightarrow> container_ContainerImage c)
           else container_ContainerImage c)\<rparr>"
proof -
  obtain t1 r1 where p1: "getIndirectFromIDs tp ctx container_processes_cypher [container_ID c] = (t1, r1)"
    by (cases "getIndirectFromIDs tp ctx container_processes_cypher [container_ID c]")
  obtain t2 r2 where p2: "getIndirectFromIDs ti ctx container_container_images_cypher [container_ID c] = (t2, r2)"
    by (cases "getIndirectFromIDs ti ctx container_container_images_cypher [container_ID c]")
  show ?thesis
    by (cases r1; cases r2)
       (simp_all add: enrich_container_def getContainerProcesses_def
          getContainerContainerImages_def p1 p2 split: list.splits)
qed

lemma enrich_image_snd:
  "snd (enrich_image tc ctx a i) =
     i\<lparr>image_Containers :=
          (if a then (case snd (getContainerImageContainers tc ctx i) of
                        Inr v \<Rightarrow> v | Inl e \<Rightarrow> image_Containers i)
           else image_Containers i)\<rparr>"
  by (cases "getContainerImageContainers tc ctx i"; cases "snd (getContainerImageContainers tc ctx i)")
     (simp_all add: enrich_image_def)

lemma enrich_cluster_snd:
  "snd (enrich_cluster th ctx a c) =
     c\<lparr>cluster_Hosts :=
          (if a then (case snd (getClusterHosts th ctx c) of
                        Inr v \<Rightarrow> v | Inl e \<Rightarrow> cluster_Hosts c)
           else cluster_Hosts c)\<rparr>"
  by (cases "getClusterHosts th ctx c"; cases "snd (getClusterHosts th ctx c)")
     (simp_all add: enrich_cluster_def)

lemma registry_loop_fails:
  "r \<in> set rs \<Longrightarrow> snd (getRegistryImages ti ctx r) = Inl e \<Longrightarrow>
     \<exists>e'. snd (registry_loop ti ctx rs) = Inl e'"
proof (induction rs)
  case Nil
  then show ?case by simp
next
  case (Cons x xs)
  obtain t1 r1 where p1: "getRegistryImages ti ctx x = (t1, r1)"
    by (cases "getRegistryImages ti ctx x")
  obtain t2 r2 where p2: "registry_loop ti ctx xs = (t2, r2)"
    by (cases "registry_loop ti ctx xs")
  show ?case
  proof (cases r1)
    case (Inl a)
    then show ?thesis by (simp add: p1)
  next
    case (Inr imgs)
    with Cons.prems p1 have "r \<in> set xs" by auto
    with Cons.IH Cons.prems p2 obtain e' where "r2 = Inl e'" by auto
    with Inr show ?thesis by (simp add: p1 p2)
  qed
qed

lemma registry_loop_first:
  "snd (getRegistryImages ti ctx r) = Inl e \<Longrightarrow> snd (registry_loop ti ctx (r # rs)) = Inl e"
  by (cases "getRegistryImages ti ctx r") simp

lemma host_runs:
  assumes "rd_client_err ctx = None" "rd_session_err ctx = None" "rd_begin_err ctx = None"
  shows "runs (fst (enrich_host tp tc ti td ctx (a, b, c, d) h)) =
     (if a then [(host_processes_cypher, [host_ID h])] else []) @
     (if c then [(host_containers_cypher, [host_ID h])] else []) @
     (if b then [(host_container_images_cypher, [host_ID h])] else []) @
     (if d then [(host_pods_cypher, [host_ID h])] else [])"
  by (simp add: enrich_host_fst runs_append getHostProcesses_def getHostContainers_def
        getHostContainerImages_def getHostPods_def indirect_runs [OF assms])

subsection \<open>The reports as a base query followed by the loop\<close>

lemma GetHostsReport_eq:
  "getGenericDirectNodeReport th ffc ctx fltr = (tr0, Inr hosts) \<Longrightarrow>
     GetHostsReport th tp tc ti td ffc ctx fltr =
       (tr0 @ concat (map (\<lambda>h. fst (enrich_host tp tc ti td ctx (host_flags fltr) h)) hosts),
        Inr (map (\<lambda>h. snd (enrich_host tp tc ti td ctx (host_flags fltr) h)) hosts))"
  by (simp add: GetHostsReport_def for_each_eq)

lemma GetContainersReport_eq:
  "getGenericDirectNodeReport tc ffc ctx fltr = (tr0, Inr cs) \<Longrightarrow>
     GetContainersReport tc tp ti ffc ctx fltr =
       (tr0 @ concat (map (\<lambda>c. fst (enrich_container tp ti ctx (container_flags fltr) c)) cs),
        Inr (map (\<lambda>c. snd (enrich_container tp ti ctx (container_flags fltr) c)) cs))"
  by (simp add: GetContainersReport_def for_each_eq)

lemma GetContainerImagesReport_eq:
  "getGenericDirectNodeReport ti ffc ctx fltr = (tr0, Inr imgs) \<Longrightarrow>
     GetContainerImagesReport ti tc ffc ctx fltr =
       (tr0 @ concat (map (\<lambda>i. fst (enrich_image tc ctx (image_flag fltr) i)) imgs),
        Inr (map (\<lambda>i. snd (enrich_image tc ctx (image_flag fltr) i)) imgs))"
  by (simp add: GetContainerImagesReport_def for_each_eq)

lemma GetKubernetesClustersReport_eq:
  "getGenericDirectNodeReport tk ffc ctx fltr = (tr0, Inr cls) \<Longrightarrow>
     GetKubernetesClustersReport tk th ffc ctx fltr =
       (tr0 @ concat (map (\<lambda>c. fst (enrich_cluster th ctx (cluster_flag fltr) c)) cls),
        Inr (map (\<lambda>c. snd (enrich_cluster th ctx (cluster_flag fltr) c)) cls))"
  by (simp add: GetKubernetesClustersReport_def for_each_eq)

lemma GetRegistryAccountReport_eq:
  "getGenericDirectNodeReport tg ffc ctx fltr = (tr0, Inr regs) \<Longrightarrow>
     GetRegistryAccountReport tg ti ffc ctx fltr =
       (tr0 @ fst (registry_loop ti ctx regs), snd (registry_loop ti ctx regs))"
  by (simp add: GetRegistryAccountReport_def split: prod.splits)

subsection \<open>The relation queries a report issues\<close>

lemma enrich_container_fst:
  "fst (enrich_container tp ti ctx (a, b) c) =
     (if a then fst (getContainerProcesses tp ctx c) else []) @
     (if b then fst (getContainerContainerImages ti ctx c) else [])"
proof -
  obtain t1 r1 where p1: "getIndirectFromIDs tp ctx container_processes_cypher [container_ID c] = (t1, r1)"
    by (cases "getIndirectFromIDs tp ctx container_processes_cypher [container_ID c]")
  obtain t2 r2 where p2: "getIndirectFromIDs ti ctx container_container_images_cypher [container_ID c] = (t2, r2)"
    by (cases "getIndirectFromIDs ti ctx container_container_images_cypher [container_ID c]")
  show ?thesis
    by (cases r1; cases r2)
       (simp_all add: enrich_container_def getContainerProcesses_def
          getContainerContainerImages_def p1 p2 split: list.splits)
qed

lemma enrich_image_fst:
  "fst (enrich_image tc ctx a i) = (if a then fst (getContainerImageContainers tc ctx i) else [])"
  by (cases "getContainerImageContainers tc ctx i"; cases "snd (getContainerImageContainers tc ctx i)")
     (simp_all add: enrich_image_def)

lemma enrich_cluster_fst:
  "fst (enrich_cluster th ctx a c) = (if a then fst (getClusterHosts th ctx c) else [])"
  by (cases "getClusterHosts th ctx c"; cases "snd (getClusterHosts th ctx c)")
     (simp_all add: enrich_cluster_def)

lemma container_runs:
  assumes "rd_client_err ctx = None" "rd_session_err ctx = None" "rd_begin_err ctx = None"
  shows "runs (fst (enrich_container tp ti ctx (a, b) c)) =
     (if a then [(container_processes_cypher, [container_ID c])] else []) @
     (if b then [(container_container_images_cypher, [container_ID c])] else [])"
  by (simp add: enrich_container_fst runs_append getContainerProcesses_def
        getContainerContainerImages_def indirect_runs [OF assms])

lemma image_runs:
  assumes "rd_client_err ctx = None" "rd_session_err ctx = None" "rd_begin_err ctx = None"
  shows "runs (fst (enrich_image tc ctx a i)) =
     (if a then [(container_image_containers_cypher, [image_ID i])] else [])"
  by (simp add: enrich_image_fst getContainerImageContainers_def indirect_runs [OF assms])

lemma cluster_runs:
  assumes "rd_client_err ctx = None" "rd_session_err ctx = None" "rd_begin_err ctx = None"
  shows "runs (fst (enrich_cluster th ctx a c)) =
     (if a then [(cluster_hosts_cypher, [cluster_ID c])] else [])"
  by (simp add: enrich_cluster_fst getClusterHosts_def indirect_runs [OF assms])

lemma registry_loop_runs:
  assumes "rd_client_err ctx = None" "rd_session_err ctx = None" "rd_begin_err ctx = None"
  shows "snd (registry_loop ti ctx rs) = Inr rs' \<Longrightarrow>
     runs (fst (registry_loop ti ctx rs)) = map (\<lambda>r. (registry_images_cypher, [registry_ID r])) rs"
proof (induction rs arbitrary: rs')
  case Nil
  then show ?case by simp
next
  case (Cons x xs)
  obtain t1 r1 where p1: "getRegistryImages ti ctx x = (t1, r1)"
    by (cases "getRegistryImages ti ctx x")
  obtain t2 r2 where p2: "registry_loop ti ctx xs = (t2, r2)"
    by (cases "registry_loop ti ctx xs")
  from p1 have t1: "runs t1 = [(registry_images_cypher, [registry_ID x])]"
    using indirect_runs [OF assms, of ti registry_images_cypher "[registry_ID x]"]
    by (simp add: getRegistryImages_def)
  from Cons.prems p1 p2 obtain imgs ys where r: "r1 = Inr imgs" "r2 = Inr ys"
    by (cases r1; cases r2) auto
  with Cons.IH p2 have "runs t2 = map (\<lambda>r. (registry_images_cypher, [registry_ID r])) xs"
    by simp
  with t1 r show ?case by (simp add: p1 p2 runs_append)
qed

lemma hosts_queries:
  assumes base: "getGenericDirectNodeReport th ffc ctx fltr = (tr0, Inr hosts)"
      and flags: "host_flags fltr = (getProcesses, getContainerImages, getContainers, getPods)"
  shows "\<exists>tr hosts'.
     GetHostsReport th tp tc ti td ffc ctx fltr = (tr0 @ tr, Inr hosts') \<and>
     runs tr = concat (map (\<lambda>h.
         (if getProcesses then [(host_processes_cypher, [host_ID h])] else []) @
         (if getContainers then [(host_containers_cypher, [host_ID h])] else []) @
         (if getContainerImages then [(host_container_images_cypher, [host_ID h])] else []) @
         (if getPods then [(host_pods_cypher, [host_ID h])] else [])) hosts) \<and>
     length (runs tr) =
       length hosts * (of_bool getProcesses + of_bool getContainers + of_bool getContainerImages + of_bool getPods) \<and>
     (\<forall>r \<in> set (runs tr). \<exists>h \<in> set hosts. snd r = [host_ID h])"
proof -
  let ?tr = "concat (map (\<lambda>h. fst (enrich_host tp tc ti td ctx (host_flags fltr) h)) hosts)"
  let ?hs = "map (\<lambda>h. snd (enrich_host tp tc ti td ctx (host_flags fltr) h)) hosts"
  let ?per = "\<lambda>h. (if getProcesses then [(host_processes_cypher, [host_ID h])] else []) @
         (if getContainers then [(host_containers_cypher, [host_ID h])] else []) @
         (if getContainerImages then [(host_container_images_cypher, [host_ID h])] else []) @
         (if getPods then [(host_pods_cypher, [host_ID h])] else [])"
  from base have "snd (getGenericDirectNodeReport th ffc ctx fltr) = Inr hosts" by simp
  then have ok: "rd_client_err ctx = None" "rd_session_err ctx = None" "rd_begin_err ctx = None"
    using direct_ok_handles by blast+
  have 1: "GetHostsReport th tp tc ti td ffc ctx fltr = (tr0 @ ?tr, Inr ?hs)"
    using base by (rule GetHostsReport_eq)
  have 2: "runs ?tr = concat (map ?per hosts)"
    unfolding runs_concat map_map comp_def flags host_runs [OF ok] by (rule refl)
  have "\<And>h. length (?per h) =
      of_bool getProcesses + of_bool getContainers + of_bool getContainerImages + of_bool getPods"
    by simp
  then have "length (concat (map ?per hosts)) =
      length hosts * (of_bool getProcesses + of_bool getContainers + of_bool getContainerImages + of_bool getPods)"
    by (rule length_concat_const)
  with 2 have 3: "length (runs ?tr) =
      length hosts * (of_bool getProcesses + of_bool getContainers + of_bool getContainerImages + of_bool getPods)"
    by simp
  have 4: "\<forall>r \<in> set (runs ?tr). \<exists>h \<in> set hosts. snd r = [host_ID h]"
    unfolding 2 by (auto split: if_splits)
  from 1 2 3 4 show ?thesis by blast
qed

lemma containers_queries:
  assumes base: "getGenericDirectNodeReport tc ffc ctx fltr = (tr0, Inr cs)"
      and flags: "container_flags fltr = (cProcesses, cImage)"
  shows "\<exists>tr cs'.
     GetContainersReport tc tp ti ffc ctx fltr = (tr0 @ tr, Inr cs') \<and>
     runs tr = concat (map (\<lambda>c.
         (if cProcesses then [(container_processes_cypher, [container_ID c])] else []) @
         (if cImage then [(container_container_images_cypher, [container_ID c])] else [])) cs)"
proof -
  let ?tr = "concat (map (\<lambda>c. fst (enrich_container tp ti ctx (container_flags fltr) c)) cs)"
  from base have "snd (getGenericDirectNodeReport tc ffc ctx fltr) = Inr cs" by simp
  then have ok: "rd_client_err ctx = None" "rd_session_err ctx = None" "rd_begin_err ctx = None"
    using direct_ok_handles by blast+
  have 1: "GetContainersReport tc tp ti ffc ctx fltr =
      (tr0 @ ?tr, Inr (map (\<lambda>c. snd (enrich_container tp ti ctx (container_flags fltr) c)) cs))"
    using base by (rule GetContainersReport_eq)
  have 2: "runs ?tr = concat (map (\<lambda>c.
         (if cProcesses then [(container_processes_cypher, [container_ID c])] else []) @
         (if cImage then [(container_container_images_cypher, [container_ID c])] else [])) cs)"
    unfolding runs_concat map_map comp_def flags container_runs [OF ok] by (rule refl)
  from 1 2 show ?thesis by blast
qed

lemma images_queries:
  assumes base: "getGenericDirectNodeReport ti ffc ctx fltr = (tr0, Inr imgs)"
  shows "\<exists>tr imgs'.
     GetContainerImagesReport ti tc ffc ctx fltr = (tr0 @ tr, Inr imgs') \<and>
     runs tr = concat (map (\<lambda>i.
         (if image_flag fltr then [(container_image_containers_cypher, [image_ID i])] else [])) imgs)"
proof -
  let ?tr = "concat (map (\<lambda>i. fst (enrich_image tc ctx (image_flag fltr) i)) imgs)"
  from base have "snd (getGenericDirectNodeReport ti ffc ctx fltr) = Inr imgs" by simp
  then have ok: "rd_client_err ctx = None" "rd_session_err ctx = None" "rd_begin_err ctx = None"
    using direct_ok_handles by blast+
  have 1: "GetContainerImagesReport ti tc ffc ctx fltr =
      (tr0 @ ?tr, Inr (map (\<lambda>i. snd (enrich_image tc ctx (image_flag fltr) i)) imgs))"
    using base by (rule GetContainerImagesReport_eq)
  have 2: "runs ?tr = concat (map (\<lambda>i.
         (if image_flag fltr then [(container_image_containers_cypher, [image_ID i])] else [])) imgs)"
    unfolding runs_concat map_map comp_def image_runs [OF ok] by (rule refl)
  from 1 2 show ?thesis by blast
qed

lemma clusters_queries:
  assumes base: "getGenericDirectNodeReport tk ffc ctx fltr = (tr0, Inr cls)"
  shows "\<exists>tr cls'.
     GetKubernetesClustersReport tk th ffc ctx fltr = (tr0 @ tr, Inr cls') \<and>
     runs tr = concat (map (\<lambda>c.
         (if cluster_flag fltr then [(cluster_hosts_cypher, [cluster_ID c])] else [])) cls)"
proof -
  let ?tr = "concat (map (\<lambda>c. fst (enrich_cluster th ctx (cluster_flag fltr) c)) cls)"
  from base have "snd (getGenericDirectNodeReport tk ffc ctx fltr) = Inr cls" by simp
  then have ok: "rd_client_err ctx = None" "rd_session_err ctx = None" "rd_begin_err ctx = None"
    using direct_ok_handles by blast+
  have 1: "GetKubernetesClustersReport tk th ffc ctx fltr =
      (tr0 @ ?tr, Inr (map (\<lambda>c. snd (enrich_cluster th ctx (cluster_flag fltr) c)) cls))"
    using base by (rule GetKubernetesClustersReport_eq)
  have 2: "runs ?tr = concat (map (\<lambda>c.
         (if cluster_flag fltr then [(cluster_hosts_cypher, [cluster_ID c])] else [])) cls)"
    unfolding runs_concat map_map comp_def cluster_runs [OF ok] by (rule refl)
  from 1 2 show ?thesis by blast
qed

lemma registries_queries:
  assumes base: "getGenericDirectNodeReport tg ffc ctx fltr = (tr0, Inr regs)"
      and res: "snd (GetRegistryAccountReport tg ti ffc ctx fltr) = Inr regs'"
  shows "\<exists>tr.
     GetRegistryAccountReport tg ti ffc ctx fltr = (tr0 @ tr, Inr regs') \<and>
     runs tr = map (\<lambda>r. (registry_images_cypher, [registry_ID r])) regs"
proof -
  from base have "snd (getGenericDirectNodeReport tg ffc ctx fltr) = Inr regs" by simp
  then have ok: "rd_client_err ctx = None" "rd_session_err ctx = None" "rd_begin_err ctx = None"
    using direct_ok_handles by blast+
  have 1: "GetRegistryAccountReport tg ti ffc ctx fltr =
      (tr0 @ fst (registry_loop ti ctx regs), snd (registry_loop ti ctx regs))"
    using base by (rule GetRegistryAccountReport_eq)
  with res have 2: "snd (registry_loop ti ctx regs) = Inr regs'" by simp
  from registry_loop_runs [OF ok 2] 1 2 show ?thesis by simp
qed

subsection \<open>A failed relation query, report by report\<close>

lemma hosts_isolated:
  assumes base: "snd (getGenericDirectNodeReport th ffc ctx fltr) = Inr hosts"
      and fl: "host_flags fltr = (gp, gi, gc, gd)"
  shows "\<exists>hosts'. snd (GetHostsReport th tp tc ti td ffc ctx fltr) = Inr hosts' \<and>
           length hosts' = length hosts \<and>
           (\<forall>j<length hosts.
              host_ID (hosts' ! j) = host_ID (hosts ! j) \<and>
              host_fields (hosts' ! j) = host_fields (hosts ! j) \<and>
              (\<forall>e. snd (getHostProcesses tp ctx (hosts ! j)) = Inl e \<longrightarrow>
                   host_Processes (hosts' ! j) = host_Processes (hosts ! j)) \<and>
              (\<forall>e. snd (getHostContainers tc ctx (hosts ! j)) = Inl e \<longrightarrow>
                   host_Containers (hosts' ! j) = host_Containers (hosts ! j)) \<and>
              (\<forall>e. snd (getHostContainerImages ti ctx (hosts ! j)) = Inl e \<longrightarrow>
                   host_ContainerImages (hosts' ! j) = host_ContainerImages (hosts ! j)) \<and>
              (\<forall>e. snd (getHostPods td ctx (hosts ! j)) = Inl e \<longrightarrow>
                   host_Pods (hosts' ! j) = host_Pods (hosts ! j)) \<and>
              (\<forall>v. gp \<longrightarrow> snd (getHostProcesses tp ctx (hosts ! j)) = Inr v \<longrightarrow>
                   host_Processes (hosts' ! j) = v) \<and>
              (\<forall>v. gc \<longrightarrow> snd (getHostContainers tc ctx (hosts ! j)) = Inr v \<longrightarrow>
                   host_Containers (hosts' ! j) = v) \<and>
              (\<forall>v. gi \<longrightarrow> snd (getHostContainerImages ti ctx (hosts ! j)) = Inr v \<longrightarrow>
                   host_ContainerImages (hosts' ! j) = v) \<and>
              (\<forall>v. gd \<longrightarrow> snd (getHostPods td ctx (hosts ! j)) = Inr v \<longrightarrow>
                   host_Pods (hosts' ! j) = v))"
proof -
  from base have "getGenericDirectNodeReport th ffc ctx fltr =
      (fst (getGenericDirectNodeReport th ffc ctx fltr), Inr hosts)"
    by (rule pair_of_snd)
  then have "snd (GetHostsReport th tp tc ti td ffc ctx fltr) =
      Inr (map (\<lambda>h. snd (enrich_host tp tc ti td ctx (gp, gi, gc, gd) h)) hosts)"
    by (simp add: GetHostsReport_eq fl)
  then show ?thesis
    by (auto simp: enrich_host_snd)
qed

lemma containers_isolated:
  assumes base: "snd (getGenericDirectNodeReport tc ffc ctx fltr) = Inr cs"
      and fl: "container_flags fltr = (cp, ci)"
  shows "\<exists>cs'. snd (GetContainersReport tc tp ti ffc ctx fltr) = Inr cs' \<and>
           length cs' = length cs \<and>
           (\<forall>j<length cs.
              container_ID (cs' ! j) = container_ID (cs ! j) \<and>
              container_fields (cs' ! j) = container_fields (cs ! j) \<and>
              (\<forall>e. snd (getContainerProcesses tp ctx (cs ! j)) = Inl e \<longrightarrow>
                   container_Processes (cs' ! j) = container_Processes (cs ! j)) \<and>
              (\<forall>e. snd (getContainerContainerImages ti ctx (cs ! j)) = Inl e \<longrightarrow>
                   container_ContainerImage (cs' ! j) = container_ContainerImage (cs ! j)) \<and>
              (\<forall>v. cp \<longrightarrow> snd (getContainerProcesses tp ctx (cs ! j)) = Inr v \<longrightarrow>
                   container_Processes (cs' ! j) = v) \<and>
              (\<forall>i0 rest. ci \<longrightarrow> snd (getContainerContainerImages ti ctx (cs ! j)) = Inr (i0 # rest) \<longrightarrow>
                   container_ContainerImage (cs' ! j) = i0))"
proof -
  from base have "getGenericDirectNodeReport tc ffc ctx fltr =
      (fst (getGenericDirectNodeReport tc ffc ctx fltr), Inr cs)"
    by (rule pair_of_snd)
  then have "snd (GetContainersReport tc tp ti ffc ctx fltr) =
      Inr (map (\<lambda>c. snd (enrich_container tp ti ctx (cp, ci) c)) cs)"
    by (simp add: GetContainersReport_eq fl)
  then show ?thesis
    by (auto simp: enrich_container_snd)
qed

lemma images_isolated:
  assumes base: "snd (getGenericDirectNodeReport ti ffc ctx fltr) = Inr imgs"
  shows "\<exists>imgs'. snd (GetContainerImagesReport ti tc ffc ctx fltr) = Inr imgs' \<and>
           length imgs' = length imgs \<and>
           (\<forall>j<length imgs.
              image_ID (imgs' ! j) = image_ID (imgs ! j) \<and>
              image_fields (imgs' ! j) = image_fields (imgs ! j) \<and>
              (\<forall>e. snd (getContainerImageContainers tc ctx (imgs ! j)) = Inl e \<longrightarrow>
                   image_Containers (imgs' ! j) = image_Containers (imgs ! j)) \<and>
              (\<forall>v. image_flag fltr \<longrightarrow> snd (getContainerImageContainers tc ctx (imgs ! j)) = Inr v \<longrightarrow>
                   image_Containers (imgs' ! j) = v))"
proof -
  from base have "getGenericDirectNodeReport ti ffc ctx fltr =
      (fst (getGenericDirectNodeReport ti ffc ctx fltr), Inr imgs)"
    by (rule pair_of_snd)
  then have "snd (GetContainerImagesReport ti tc ffc ctx fltr) =
      Inr (map (\<lambda>i. snd (enrich_image tc ctx (image_flag fltr) i)) imgs)"
    by (simp add: GetContainerImagesReport_eq)
  then show ?thesis
    by (auto simp: enrich_image_snd)
qed

lemma clusters_isolated:
  assumes base: "snd (getGenericDirectNodeReport tk ffc ctx fltr) = Inr cls"
  shows "\<exists>cls'. snd (GetKubernetesClustersReport tk th ffc ctx fltr) = Inr cls' \<and>
           length cls' = length cls \<and>
           (\<forall>j<length cls.
              cluster_ID (cls' ! j) = cluster_ID (cls ! j) \<and>
              cluster_fields (cls' ! j) = cluster_fields (cls ! j) \<and>
              (\<forall>e. snd (getClusterHosts th ctx (cls ! j)) = Inl e \<longrightarrow>
                   cluster_Hosts (cls' ! j) = cluster_Hosts (cls ! j)) \<and>
              (\<forall>v. cluster_flag fltr \<longrightarrow> snd (getClusterHosts th ctx (cls ! j)) = Inr v \<longrightarrow>
                   cluster_Hosts (cls' ! j) = v))"
proof -
  from base have "getGenericDirectNodeReport tk ffc ctx fltr =
      (fst (getGenericDirectNodeReport tk ffc ctx fltr), Inr cls)"
    by (rule pair_of_snd)
  then have "snd (GetKubernetesClustersReport tk th ffc ctx fltr) =
      Inr (map (\<lambda>c. snd (enrich_cluster th ctx (cluster_flag fltr) c)) cls)"
    by (simp add: GetKubernetesClustersReport_eq)
  then show ?thesis
    by (auto simp: enrich_cluster_snd)
qed

lemma registry_propagates:
  assumes base: "snd (getGenericDirectNodeReport tg ffc ctx fltr) = Inr regs"
      and r: "r \<in> set regs" and f: "snd (getRegistryImages ti ctx r) = Inl e"
  shows "\<exists>e'. snd (GetRegistryAccountReport tg ti ffc ctx fltr) = Inl e'"
proof -
  from base have "getGenericDirectNodeReport tg ffc ctx fltr =
      (fst (getGenericDirectNodeReport tg ffc ctx fltr), Inr regs)"
    by (rule pair_of_snd)
  then have "snd (GetRegistryAccountReport tg ti ffc ctx fltr) = snd (registry_loop ti ctx regs)"
    by (simp add: GetRegistryAccountReport_eq)
  with registry_loop_fails [OF r f] show ?thesis by simp
qed

subsection \<open>The concrete stores\<close>

lemma page_base_hosts:
  "getGenericDirectNodeReport host_t FieldFilterCypher (page_reader page failing) all_fields =
     ([EvNeo4jClient, EvSession, EvBeginTransaction,
       EvRun ''MATCH (n:Node) OPTIONAL MATCH (n) -[:IS]-> (e) RETURN n, e'' [],
       EvCollect, EvTxClose, EvSessionClose],
      map_records host_t []
        (map (\<lambda>i. \<lparr>Keys = [''n'', ''e''], Values = [VNode [(''node_id'', VStr i)], VNull]\<rparr>) page))"
  by (simp add: getGenericDirectNodeReport_def page_reader_def all_fields_def Let_def
        direct_query_def FieldFilterCypher_def host_t_def)

lemma page_records_hosts:
  "map_records host_t []
     (map (\<lambda>i. \<lparr>Keys = [''n'', ''e''], Values = [VNode [(''node_id'', VStr i)], VNull]\<rparr>) page) =
   Inr (map host_of page)"
  by (induction page)
     (simp_all add: record_map_def primary_map_def overlay_is_def rec_Get_def host_of_def)

lemma host_of_ID: "host_ID (host_of i) = i"
  by (simp add: host_of_def host_t_def node_id_of_def)

lemma host_of_relations:
  "host_Processes (host_of i) = [] \<and> host_Containers (host_of i) = [] \<and>
   host_ContainerImages (host_of i) = [] \<and> host_Pods (host_of i) = []"
  by (simp add: host_of_def host_t_def)

lemma page_relation_fails:
  "snd (getIndirectFromIDs t (page_reader page q) q [i]) = Inl (StoreError ''relation query failed'')"
  by (simp add: getIndirectFromIDs_def page_reader_def Let_def)

lemma page_relation_ok:
  "q \<noteq> failing \<Longrightarrow>
     snd (getIndirectFromIDs (related_t l) (page_reader page failing) q [i]) = Inr [i @ ''/x'']"
  by (simp add: getIndirectFromIDs_def page_reader_def Let_def rec_Get_def related_t_def
        node_id_of_def)

lemma page_hosts:
  "snd (getGenericDirectNodeReport host_t FieldFilterCypher (page_reader page failing) all_fields) =
     Inr (map host_of page)"
  unfolding page_base_hosts snd_conv by (rule page_records_hosts)

lemma page_registry:
  "snd (getGenericDirectNodeReport registry_t FieldFilterCypher (page_reader [''r1''] failing) all_fields) =
     Inr [registry_of ''r1'']"
  by (simp add: getGenericDirectNodeReport_def page_reader_def all_fields_def Let_def
        record_map_def primary_map_def overlay_is_def rec_Get_def registry_of_def)

lemma page_registry_images_fail:
  "snd (getRegistryImages t (page_reader page registry_images_cypher) r) =
     Inl (StoreError ''relation query failed'')"
  unfolding getRegistryImages_def by (rule page_relation_fails)

section \<open>The claims\<close>

subsection \<open>Ingestion\<close>

text \<open>
  C1. Claimed: running \<^verbatim>\<open>CommitFuncSecrets\<close> twice on the same namespace with an identical
  batch leaves the same node and edge counts as running it once. The code does not do
  that. With host \<open>h1\<close> present, one run of the batch \<open>[secret0]\<close> leaves one Rule, one
  Secret and one SecretScan node and one IS, one DETECTED and one SCANNED edge. A second
  run at a later \<^verbatim>\<open>timestamp()\<close> leaves two Secret and two SecretScan nodes and two edges of
  each kind: the \<^verbatim>\<open>MERGE\<close> of the scan matches on \<^verbatim>\<open>time_stamp: timestamp()\<close>, and
  \<^verbatim>\<open>SET n += row\<close> has overwritten the finding's \<^verbatim>\<open>node_id\<close> (the merge key \<^verbatim>\<open>rule_id\<close>) with
  the record's own \<^verbatim>\<open>node_id\<close>. Even at the same \<^verbatim>\<open>timestamp()\<close> the second run creates a
  second Secret node with its IS and DETECTED edges. Without the host (where the finding
  keeps its key) a second run at a later \<^verbatim>\<open>timestamp()\<close> still creates a second SecretScan
  node. Only the Rule node is never duplicated.
\<close>

theorem CommitFuncSecrets_rerun_duplicates:
  "(let r1 = CommitFuncSecrets dir_host ''ns'' [secret0];
        r2 = CommitFuncSecrets (at_time 2000 (snd r1)) ''ns'' [secret0];
        r2' = CommitFuncSecrets (snd r1) ''ns'' [secret0];
        q1 = CommitFuncSecrets dir_no_host ''ns'' [secret0];
        q2 = CommitFuncSecrets (at_time 2000 (snd q1)) ''ns'' [secret0]
    in fst (fst r1) = None \<and> fst (fst r2) = None \<and> fst (fst r2') = None \<and>
       fst (fst q1) = None \<and> fst (fst q2) = None \<and>
       node_counts (db (snd r1 ''ns'')) = (1, 1, 1) \<and>
       edge_counts (db (snd r1 ''ns'')) = (1, 1, 1) \<and>
       node_counts (db (snd r2 ''ns'')) = (1, 2, 2) \<and>
       edge_counts (db (snd r2 ''ns'')) = (2, 2, 2) \<and>
       node_counts (db (snd r2' ''ns'')) = (1, 2, 1) \<and>
       edge_counts (db (snd r2' ''ns'')) = (2, 2, 1) \<and>
       node_counts (db (snd q1 ''ns'')) = (1, 1, 1) \<and>
       node_counts (db (snd q2 ''ns'')) = (1, 1, 2))"
  by code_simp

text \<open>
  C2. Claimed: when the target asset node of an item does not exist, the Finding is still
  created, linked to its Rule via IS and to its Scan via DETECTED, the SCANNED edge is
  omitted and the call succeeds. On the empty graph the batch \<open>[secret0]\<close> is committed
  without error and leaves the Rule, the Secret (node 1, under its key \<open>1:h1\<close>) and the
  SecretScan with the IS edge and no SCANNED edge, but also no DETECTED edge, and the
  finding carries none of the record's properties: \<^verbatim>\<open>MATCH (l:Node{...})\<close> stands before
  \<^verbatim>\<open>MERGE (m) -[:DETECTED]-> (n)\<close> and \<^verbatim>\<open>SET n += row\<close>, and drops the row. With the host
  present the DETECTED edge is there.
\<close>

theorem CommitFuncSecrets_missing_host_no_detected:
  "(let r = CommitFuncSecrets dir_no_host ''ns'' [secret0];
        g = db (snd r ''ns'');
        g' = db (snd (CommitFuncSecrets dir_host ''ns'' [secret0]) ''ns'')
    in match_nodes (db (dir_no_host ''ns'')) ''Node'' [(''node_id'', VStr ''h1'')] = [] \<and>
       fst (fst r) = None \<and>
       node_counts g = (1, 1, 1) \<and>
       match_nodes g ''Secret'' [(''node_id'', VStr ''1:h1'')] = [1] \<and>
       edges g = [(1, ''IS'', 0)] \<and>
       count_edges g ''DETECTED'' = 0 \<and>
       count_edges g ''SCANNED'' = 0 \<and>
       node_props (nodes g ! 1) ''scan_id'' = None \<and>
       count_edges g' ''DETECTED'' = 1)"
  by code_simp

text \<open>
  C7, as the code has it. For every record of the batch, the entry handed to the store
  holds the rule's properties under \<^verbatim>\<open>"Rule"\<close> and the flattened finding under \<^verbatim>\<open>"Secret"\<close>.
  In the finding's map \<^verbatim>\<open>rule_id\<close> is the rule id in decimal, a colon and the host name;
  the properties of the Severity and Match groups are at the top level; the nested keys
  \<^verbatim>\<open>Rule\<close>, \<^verbatim>\<open>Match\<close> and \<^verbatim>\<open>Severity\<close> are gone. The properties of the Rule group
  (\<^verbatim>\<open>id\<close>, \<^verbatim>\<open>name\<close>, \<^verbatim>\<open>part\<close>, \<^verbatim>\<open>signature_to_match\<close>) are not spread into the finding's map.
\<close>

theorem secretsToMaps_flattens:
  assumes "j < length data"
  shows "length (secretsToMaps data) = length data \<and>
         (secretsToMaps data ! j) ''Rule'' = Some (ToMap_Rule (Rule (data ! j))) \<and>
         (\<exists>secret.
            (secretsToMaps data ! j) ''Secret'' = Some secret \<and>
            secret ''rule_id'' =
              Some (VStr (show_int (ID (Rule (data ! j))) @ '':'' @ HostName (data ! j))) \<and>
            (\<forall>k v. ToMap_Severity (Severity (data ! j)) k = Some v \<longrightarrow> secret k = Some v) \<and>
            (\<forall>k v. ToMap_Match (Match (data ! j)) k = Some v \<longrightarrow> secret k = Some v) \<and>
            secret ''Rule'' = None \<and> secret ''Match'' = None \<and> secret ''Severity'' = None \<and>
            secret ''id'' = None \<and> secret ''name'' = None \<and> secret ''part'' = None \<and>
            secret ''signature_to_match'' = None)"
  using assms
  by (simp add: secretsToMaps_def secret_entry_def secret_map_rule_id secret_map_severity
        secret_map_match secret_map_nested_removed secret_map_no_rule_props)

text \<open>
  C7, witness: the batch \<open>[secret0]\<close>. Its finding has \<^verbatim>\<open>rule_id\<close> \<open>1:h1\<close>, the severity's
  \<^verbatim>\<open>level\<close> and the match's \<^verbatim>\<open>full_filename\<close> at the top level, and no \<^verbatim>\<open>Rule\<close> and no \<^verbatim>\<open>name\<close>.
\<close>

theorem secretsToMaps_flattens_witness:
  "(0::nat) < length [secret0] \<and>
   (secretsToMaps [secret0] ! 0) ''Rule'' = Some (ToMap_Rule (Rule secret0)) \<and>
   (\<exists>secret.
      (secretsToMaps [secret0] ! 0) ''Secret'' = Some secret \<and>
      secret ''rule_id'' = Some (VStr ''1:h1'') \<and>
      secret ''level'' = Some (VStr ''high'') \<and>
      secret ''full_filename'' = Some (VStr ''f'') \<and>
      secret ''Rule'' = None \<and> secret ''name'' = None)"
proof -
  have len: "(0::nat) < length [secret0]" by simp
  have sev: "ToMap_Severity (Severity secret0) ''level'' = Some (VStr ''high'')"
    by (simp add: ToMap_Severity_def Severity_entries_def secret0_def)
  have mat: "ToMap_Match (Match secret0) ''full_filename'' = Some (VStr ''f'')"
    by (simp add: ToMap_Match_def Match_entries_def secret0_def)
  have key: "show_int (ID (Rule secret0)) @ '':'' @ HostName secret0 = ''1:h1''"
    by (simp add: secret0_def show_int_1)
  from secretsToMaps_flattens [OF len] sev mat key show ?thesis
    by auto
qed

text \<open>
  C7, counterexample to the claim as stated ("the Rule/Match/Severity group properties
  are spread into the top-level map"): the rule of \<open>secret0\<close> has the property
  \<^verbatim>\<open>signature_to_match\<close>, and the finding's map handed to the store has no such key.
\<close>

theorem rule_properties_not_spread:
  "\<not> (\<forall>k v. ToMap_Rule (Rule secret0) k = Some v \<longrightarrow>
              get_map (secretsToMaps [secret0] ! 0) ''Secret'' k = Some v)"
proof
  assume "\<forall>k v. ToMap_Rule (Rule secret0) k = Some v \<longrightarrow>
                 get_map (secretsToMaps [secret0] ! 0) ''Secret'' k = Some v"
  moreover have "ToMap_Rule (Rule secret0) ''signature_to_match'' = Some (VStr ''sig'')"
    by (simp add: ToMap_Rule_def Rule_entries_def secret0_def)
  ultimately have "get_map (secretsToMaps [secret0] ! 0) ''Secret'' ''signature_to_match'' = Some (VStr ''sig'')"
    by blast
  moreover have "get_map (secretsToMaps [secret0] ! 0) ''Secret'' ''signature_to_match'' = None"
    by (simp add: get_map_def secretsToMaps_def secret_entry_def secret_map_no_rule_props)
  ultimately show False by simp
qed

text \<open>
  C8. \<^verbatim>\<open>CommitFuncSecretScanStatus\<close> with an empty batch returns \<^verbatim>\<open>nil\<close>; the only request it
  has made is the lookup of the namespace's client: it opens no session and no
  transaction, runs no query, commits nothing, and every namespace's store is as before.
\<close>

theorem CommitFuncSecretScanStatus_empty_noop:
  "CommitFuncSecretScanStatus dir ns [] = ((None, [EvNeo4jClient]), dir)"
  by (simp add: CommitFuncSecretScanStatus_def)

text \<open>
  C10. When the namespace's client cannot be obtained, \<^verbatim>\<open>CommitFuncSecretScanStatus\<close> with
  an empty batch still returns \<^verbatim>\<open>nil\<close>: the error of \<^verbatim>\<open>directory.Neo4jClient\<close> is looked at
  only after the early return, so that only a non-empty batch returns it.
\<close>

theorem CommitFuncSecretScanStatus_empty_ignores_client_error:
  assumes "neo4j_client_err (dir ns) = Some err"
  shows "fst (fst (CommitFuncSecretScanStatus dir ns [])) = None \<and>
         (data \<noteq> [] \<longrightarrow>
            CommitFuncSecretScanStatus dir ns data = ((Some err, [EvNeo4jClient]), dir))"
  using assms by (simp add: CommitFuncSecretScanStatus_def)

text \<open>
  C10, witness: the directory \<open>unreachable\<close>; the empty batch succeeds, the batch
  \<open>[status0]\<close> returns the client's error.
\<close>

theorem CommitFuncSecretScanStatus_empty_ignores_client_error_witness:
  "neo4j_client_err (unreachable ''ns'') = Some (StoreError ''unreachable'') \<and>
   fst (fst (CommitFuncSecretScanStatus unreachable ''ns'' [])) = None \<and>
   CommitFuncSecretScanStatus unreachable ''ns'' [status0] =
     ((Some (StoreError ''unreachable''), [EvNeo4jClient]), unreachable)"
proof -
  have down: "neo4j_client_err (unreachable ''ns'') = Some (StoreError ''unreachable'')"
    by (simp add: unreachable_def store_of_def)
  from CommitFuncSecretScanStatus_empty_ignores_client_error
         [of unreachable "''ns''" "StoreError ''unreachable''" "[status0]"] down
  show ?thesis by simp
qed

subsection \<open>Lookup\<close>

text \<open>
  C3, as the code has it. \<^verbatim>\<open>getGenericDirectNodeReport\<close> does not look at the names in
  \<^verbatim>\<open>InFieldFilter\<close> before it uses them. Whatever the filter holds, once the client, the
  session and the transaction are there the call runs the query, whose \<^verbatim>\<open>RETURN\<close> clause
  is what \<^verbatim>\<open>FieldFilterCypher\<close> makes of the names (a single name \<open>f\<close> appears as
  \<^verbatim>\<open>n.f\<close>, whatever \<open>f\<close> is). An error the call returns is the store's own (from
  \<^verbatim>\<open>tx.Run\<close> or \<^verbatim>\<open>Collect\<close>), or a panic of the mapping loop; there is no validation error.
\<close>

theorem lookup_runs_query_unvalidated:
  assumes "rd_client_err ctx = None" "rd_session_err ctx = None" "rd_begin_err ctx = None"
  shows "take 4 (fst (getGenericDirectNodeReport t ffc ctx fltr)) =
           [EvNeo4jClient, EvSession, EvBeginTransaction,
            EvRun (direct_query (nodeType t) ffc fltr) (NodeIds fltr)] \<and>
         direct_query (nodeType t) FieldFilterCypher \<lparr>InFieldFilter = [f], NodeIds = [], Window = w\<rparr> =
           ''MATCH (n:'' @ nodeType t @ '') OPTIONAL MATCH (n) -[:IS]-> (e) RETURN n.'' @ f @ '', e'' \<and>
         (\<forall>e. snd (getGenericDirectNodeReport t ffc ctx fltr) = Inl e \<longrightarrow>
            rd_run ctx (direct_query (nodeType t) ffc fltr) (NodeIds fltr) = Inl e \<or>
            rd_run ctx (direct_query (nodeType t) ffc fltr) (NodeIds fltr) = Inr (Inl e) \<or>
            (\<exists>msg. e = Panic msg))"
proof -
  have 1: "take 4 (fst (getGenericDirectNodeReport t ffc ctx fltr)) =
           [EvNeo4jClient, EvSession, EvBeginTransaction,
            EvRun (direct_query (nodeType t) ffc fltr) (NodeIds fltr)]"
    using assms by (simp add: getGenericDirectNodeReport_def Let_def split: sum.splits)
  have 2: "direct_query (nodeType t) FieldFilterCypher \<lparr>InFieldFilter = [f], NodeIds = [], Window = w\<rparr> =
           ''MATCH (n:'' @ nodeType t @ '') OPTIONAL MATCH (n) -[:IS]-> (e) RETURN n.'' @ f @ '', e''"
    by (simp add: direct_query_def FieldFilterCypher_def)
  have 3: "\<forall>e. snd (getGenericDirectNodeReport t ffc ctx fltr) = Inl e \<longrightarrow>
            rd_run ctx (direct_query (nodeType t) ffc fltr) (NodeIds fltr) = Inl e \<or>
            rd_run ctx (direct_query (nodeType t) ffc fltr) (NodeIds fltr) = Inr (Inl e) \<or>
            (\<exists>msg. e = Panic msg)"
    using assms
    by (auto simp: getGenericDirectNodeReport_def Let_def split: sum.splits dest: map_records_panics)
  from 1 2 3 show ?thesis by blast
qed

text \<open>
  C3, witness: the store \<open>page_reader [] []\<close> and the filter that asks for the field
  \<open>bogus\<close>. The fourth request of the call is the query with \<^verbatim>\<open>n.bogus\<close> in it.
\<close>

theorem lookup_runs_query_unvalidated_witness:
  "rd_client_err (page_reader [] []) = None \<and>
   rd_session_err (page_reader [] []) = None \<and>
   rd_begin_err (page_reader [] []) = None \<and>
   take 4 (fst (getGenericDirectNodeReport host_t FieldFilterCypher (page_reader [] []) bogus_field)) =
     [EvNeo4jClient, EvSession, EvBeginTransaction,
      EvRun ''MATCH (n:Node) OPTIONAL MATCH (n) -[:IS]-> (e) RETURN n.bogus, e'' []]"
proof -
  have ok: "rd_client_err (page_reader [] []) = None" "rd_session_err (page_reader [] []) = None"
    "rd_begin_err (page_reader [] []) = None"
    by (simp_all add: page_reader_def)
  have nt: "nodeType host_t = ''Node''" by (simp add: host_t_def)
  from lookup_runs_query_unvalidated [OF ok, of host_t FieldFilterCypher bogus_field "''bogus''" "(0, 0)"]
  have "take 4 (fst (getGenericDirectNodeReport host_t FieldFilterCypher (page_reader [] []) bogus_field)) =
          [EvNeo4jClient, EvSession, EvBeginTransaction,
           EvRun (direct_query (nodeType host_t) FieldFilterCypher bogus_field) (NodeIds bogus_field)]"
    and "direct_query (nodeType host_t) FieldFilterCypher \<lparr>InFieldFilter = [''bogus''], NodeIds = [], Window = (0, 0)\<rparr> =
           ''MATCH (n:'' @ nodeType host_t @ '') OPTIONAL MATCH (n) -[:IS]-> (e) RETURN n.'' @ ''bogus'' @ '', e''"
    by blast+
  with ok nt show ?thesis by (simp add: bogus_field_def)
qed

text \<open>
  C3, counterexample to the claim as stated: the field \<open>bogus\<close> belongs to no entity, yet
  the lookup obtains the client, opens a session and a transaction, sends the query with
  the name spliced into its text, collects the (empty) result and returns it without
  error.
\<close>

theorem lookup_unknown_field_reaches_store:
  "getGenericDirectNodeReport host_t FieldFilterCypher (page_reader [] []) bogus_field =
     ([EvNeo4jClient, EvSession, EvBeginTransaction,
       EvRun ''MATCH (n:Node) OPTIONAL MATCH (n) -[:IS]-> (e) RETURN n.bogus, e'' [],
       EvCollect, EvTxClose, EvSessionClose],
      Inr [])"
  by (simp add: getGenericDirectNodeReport_def page_reader_def bogus_field_def host_t_def
        direct_query_def FieldFilterCypher_def Let_def)



text \<open>
  C4, as the code has it. In \<^verbatim>\<open>GetHostsReport\<close>, \<^verbatim>\<open>GetContainersReport\<close>,
  \<^verbatim>\<open>GetContainerImagesReport\<close> and \<^verbatim>\<open>GetKubernetesClustersReport\<close> a relation query that
  fails is passed over: when the base query succeeds the report succeeds, with one entity
  per entity of the base query, the same ids and plain fields; a relation whose query
  failed for an entity keeps the value the entity was decoded with, and every relation
  that is asked for and whose query succeeded holds that query's result (for a container's
  image: the first node of a non-empty result). \<^verbatim>\<open>GetRegistryAccountReport\<close> is different:
  when the images query fails for one of its registries, the whole call returns an error.
  (\<open>gp\<close>, \<open>gi\<close>, \<open>gc\<close>, \<open>gd\<close> and \<open>cp\<close>, \<open>ci\<close> are the flags the filter sets in the first two
  reports.)
\<close>

theorem enrichment_failure_isolated_except_registry:
  assumes hf: "host_flags fltr = (gp, gi, gc, gd)"
      and cf: "container_flags fltr = (cp, ci)"
  shows
    "(\<forall>hosts. snd (getGenericDirectNodeReport th ffc ctx fltr) = Inr hosts \<longrightarrow>
        (\<exists>hosts'. snd (GetHostsReport th tp tc ti td ffc ctx fltr) = Inr hosts' \<and>
             length hosts' = length hosts \<and>
             (\<forall>j<length hosts.
                host_ID (hosts' ! j) = host_ID (hosts ! j) \<and>
                host_fields (hosts' ! j) = host_fields (hosts ! j) \<and>
                (\<forall>e. snd (getHostProcesses tp ctx (hosts ! j)) = Inl e \<longrightarrow>
                     host_Processes (hosts' ! j) = host_Processes (hosts ! j)) \<and>
                (\<forall>e. snd (getHostContainers tc ctx (hosts ! j)) = Inl e \<longrightarrow>
                     host_Containers (hosts' ! j) = host_Containers (hosts ! j)) \<and>
                (\<forall>e. snd (getHostContainerImages ti ctx (hosts ! j)) = Inl e \<longrightarrow>
                     host_ContainerImages (hosts' ! j) = host_ContainerImages (hosts ! j)) \<and>
                (\<forall>e. snd (getHostPods td ctx (hosts ! j)) = Inl e \<longrightarrow>
                     host_Pods (hosts' ! j) = host_Pods (hosts ! j)) \<and>
                (\<forall>v. gp \<longrightarrow> snd (getHostProcesses tp ctx (hosts ! j)) = Inr v \<longrightarrow>
                     host_Processes (hosts' ! j) = v) \<and>
                (\<forall>v. gc \<longrightarrow> snd (getHostContainers tc ctx (hosts ! j)) = Inr v \<longrightarrow>
                     host_Containers (hosts' ! j) = v) \<and>
                (\<forall>v. gi \<longrightarrow> snd (getHostContainerImages ti ctx (hosts ! j)) = Inr v \<longrightarrow>
                     host_ContainerImages (hosts' ! j) = v) \<and>
                (\<forall>v. gd \<longrightarrow> snd (getHostPods td ctx (hosts ! j)) = Inr v \<longrightarrow>
                     host_Pods (hosts' ! j) = v)))) \<and>
     (\<forall>cs. snd (getGenericDirectNodeReport tcn ffc ctx fltr) = Inr cs \<longrightarrow>
        (\<exists>cs'. snd (GetContainersReport tcn tcp tci ffc ctx fltr) = Inr cs' \<and>
             length cs' = length cs \<and>
             (\<forall>j<length cs.
                container_ID (cs' ! j) = container_ID (cs ! j) \<and>
                container_fields (cs' ! j) = container_fields (cs ! j) \<and>
                (\<forall>e. snd (getContainerProcesses tcp ctx (cs ! j)) = Inl e \<longrightarrow>
                     container_Processes (cs' ! j) = container_Processes (cs ! j)) \<and>
                (\<forall>e. snd (getContainerContainerImages tci ctx (cs ! j)) = Inl e \<longrightarrow>
                     container_ContainerImage (cs' ! j) = container_ContainerImage (cs ! j)) \<and>
                (\<forall>v. cp \<longrightarrow> snd (getContainerProcesses tcp ctx (cs ! j)) = Inr v \<longrightarrow>
                     container_Processes (cs' ! j) = v) \<and>
                (\<forall>i0 rest. ci \<longrightarrow> snd (getContainerContainerImages tci ctx (cs ! j)) = Inr (i0 # rest) \<longrightarrow>
                     container_ContainerImage (cs' ! j) = i0)))) \<and>
     (\<forall>imgs. snd (getGenericDirectNodeReport tim ffc ctx fltr) = Inr imgs \<longrightarrow>
        (\<exists>imgs'. snd (GetContainerImagesReport tim timc ffc ctx fltr) = Inr imgs' \<and>
             length imgs' = length imgs \<and>
             (\<forall>j<length imgs.
                image_ID (imgs' ! j) = image_ID (imgs ! j) \<and>
                image_fields (imgs' ! j) = image_fields (imgs ! j) \<and>
                (\<forall>e. snd (getContainerImageContainers timc ctx (imgs ! j)) = Inl e \<longrightarrow>
                     image_Containers (imgs' ! j) = image_Containers (imgs ! j)) \<and>
                (\<forall>v. image_flag fltr \<longrightarrow> snd (getContainerImageContainers timc ctx (imgs ! j)) = Inr v \<longrightarrow>
                     image_Containers (imgs' ! j) = v)))) \<and>
     (\<forall>cls. snd (getGenericDirectNodeReport tk ffc ctx fltr) = Inr cls \<longrightarrow>
        (\<exists>cls'. snd (GetKubernetesClustersReport tk tkh ffc ctx fltr) = Inr cls' \<and>
             length cls' = length cls \<and>
             (\<forall>j<length cls.
                cluster_ID (cls' ! j) = cluster_ID (cls ! j) \<and>
                cluster_fields (cls' ! j) = cluster_fields (cls ! j) \<and>
                (\<forall>e. snd (getClusterHosts tkh ctx (cls ! j)) = Inl e \<longrightarrow>
                     cluster_Hosts (cls' ! j) = cluster_Hosts (cls ! j)) \<and>
                (\<forall>v. cluster_flag fltr \<longrightarrow> snd (getClusterHosts tkh ctx (cls ! j)) = Inr v \<longrightarrow>
                     cluster_Hosts (cls' ! j) = v)))) \<and>
     (\<forall>regs r e. snd (getGenericDirectNodeReport tg ffc ctx fltr) = Inr regs \<longrightarrow>
        r \<in> set regs \<longrightarrow> snd (getRegistryImages tgi ctx r) = Inl e \<longrightarrow>
        (\<exists>e'. snd (GetRegistryAccountReport tg tgi ffc ctx fltr) = Inl e'))"
  apply (intro conjI allI impI)
      apply (erule hosts_isolated [OF _ hf])
     apply (erule containers_isolated [OF _ cf])
    apply (erule images_isolated)
   apply (erule clusters_isolated)
  apply (erule registry_propagates, assumption, assumption)
  done

text \<open>
  C4, witness: the store \<open>page_reader [''h1''] host_processes_cypher\<close> holds host \<open>h1\<close> and
  refuses the processes query. The hosts report succeeds; its host has its decoded (empty)
  processes and the containers, images and pods the other three queries returned. The
  store \<open>page_reader [''r1''] registry_images_cypher\<close> holds registry \<open>r1\<close> and refuses the
  images query: the registry report returns an error.
\<close>

theorem enrichment_failure_isolated_except_registry_witness:
  "host_flags all_fields = (True, True, True, True) \<and>
   container_flags all_fields = (True, True) \<and>
   snd (getGenericDirectNodeReport host_t FieldFilterCypher
          (page_reader [''h1''] host_processes_cypher) all_fields) = Inr [host_of ''h1''] \<and>
   snd (getHostProcesses (related_t ''Process'') (page_reader [''h1''] host_processes_cypher)
          (host_of ''h1'')) = Inl (StoreError ''relation query failed'') \<and>
   (\<exists>hosts'.
      snd (GetHostsReport host_t (related_t ''Process'') (related_t ''Container'')
             (related_t ''ContainerImage'') (related_t ''Pod'') FieldFilterCypher
             (page_reader [''h1''] host_processes_cypher) all_fields) = Inr hosts' \<and>
      length hosts' = 1 \<and>
      host_ID (hosts' ! 0) = ''h1'' \<and>
      host_Processes (hosts' ! 0) = [] \<and>
      host_Containers (hosts' ! 0) = [''h1/x''] \<and>
      host_ContainerImages (hosts' ! 0) = [''h1/x''] \<and>
      host_Pods (hosts' ! 0) = [''h1/x'']) \<and>
   snd (getGenericDirectNodeReport registry_t FieldFilterCypher
          (page_reader [''r1''] registry_images_cypher) all_fields) = Inr [registry_of ''r1''] \<and>
   snd (getRegistryImages (related_t ''ContainerImage'') (page_reader [''r1''] registry_images_cypher)
          (registry_of ''r1'')) = Inl (StoreError ''relation query failed'') \<and>
   (\<exists>e'. snd (GetRegistryAccountReport registry_t (related_t ''ContainerImage'') FieldFilterCypher
                (page_reader [''r1''] registry_images_cypher) all_fields) = Inl e')"
proof -
  let ?hr = "page_reader [''h1''] host_processes_cypher"
  let ?rr = "page_reader [''r1''] registry_images_cypher"
  have hf: "host_flags all_fields = (True, True, True, True)"
    by (simp add: host_flags_def all_fields_def)
  have cf: "container_flags all_fields = (True, True)"
    by (simp add: container_flags_def all_fields_def)
  have hbase: "snd (getGenericDirectNodeReport host_t FieldFilterCypher ?hr all_fields) = Inr [host_of ''h1'']"
    using page_hosts [of "[''h1'']" host_processes_cypher] by simp
  have rbase: "snd (getGenericDirectNodeReport registry_t FieldFilterCypher ?rr all_fields) = Inr [registry_of ''r1'']"
    by (rule page_registry)
  have pfail: "snd (getHostProcesses (related_t ''Process'') ?hr (host_of ''h1'')) =
      Inl (StoreError ''relation query failed'')"
    by (simp add: getHostProcesses_def page_relation_fails)
  have cok: "snd (getHostContainers (related_t ''Container'') ?hr (host_of ''h1'')) = Inr [''h1/x'']"
    by (simp add: getHostContainers_def host_of_ID page_relation_ok
          host_containers_cypher_def host_processes_cypher_def)
  have iok: "snd (getHostContainerImages (related_t ''ContainerImage'') ?hr (host_of ''h1'')) = Inr [''h1/x'']"
    by (simp add: getHostContainerImages_def host_of_ID page_relation_ok
          host_container_images_cypher_def host_processes_cypher_def)
  have dok: "snd (getHostPods (related_t ''Pod'') ?hr (host_of ''h1'')) = Inr [''h1/x'']"
    by (simp add: getHostPods_def host_of_ID page_relation_ok
          host_pods_cypher_def host_processes_cypher_def)
  have rfail: "snd (getRegistryImages (related_t ''ContainerImage'') ?rr (registry_of ''r1'')) =
      Inl (StoreError ''relation query failed'')"
    by (rule page_registry_images_fail)
  note H = enrichment_failure_isolated_except_registry
             [OF hf cf, where ctx = ?hr and ffc = FieldFilterCypher and th = host_t
               and tp = "related_t ''Process''" and tc = "related_t ''Container''"
               and ti = "related_t ''ContainerImage''" and td = "related_t ''Pod''"]
  note R = enrichment_failure_isolated_except_registry
             [OF hf cf, where ctx = ?rr and ffc = FieldFilterCypher and tg = registry_t
               and tgi = "related_t ''ContainerImage''"]
  note H1 = H [THEN conjunct1, rule_format, OF hbase]
  note R5 = R [THEN conjunct2, THEN conjunct2, THEN conjunct2, THEN conjunct2, rule_format,
               OF rbase _ rfail]
  from H1 obtain hosts' where h:
    "snd (GetHostsReport host_t (related_t ''Process'') (related_t ''Container'')
            (related_t ''ContainerImage'') (related_t ''Pod'') FieldFilterCypher ?hr all_fields) = Inr hosts'"
    "length hosts' = length [host_of ''h1'']"
    "\<forall>j<length [host_of ''h1''].
       host_ID (hosts' ! j) = host_ID ([host_of ''h1''] ! j) \<and>
       host_fields (hosts' ! j) = host_fields ([host_of ''h1''] ! j) \<and>
       (\<forall>e. snd (getHostProcesses (related_t ''Process'') ?hr ([host_of ''h1''] ! j)) = Inl e \<longrightarrow>
            host_Processes (hosts' ! j) = host_Processes ([host_of ''h1''] ! j)) \<and>
       (\<forall>e. snd (getHostContainers (related_t ''Container'') ?hr ([host_of ''h1''] ! j)) = Inl e \<longrightarrow>
            host_Containers (hosts' ! j) = host_Containers ([host_of ''h1''] ! j)) \<and>
       (\<forall>e. snd (getHostContainerImages (related_t ''ContainerImage'') ?hr ([host_of ''h1''] ! j)) = Inl e \<longrightarrow>
            host_ContainerImages (hosts' ! j) = host_ContainerImages ([host_of ''h1''] ! j)) \<and>
       (\<forall>e. snd (getHostPods (related_t ''Pod'') ?hr ([host_of ''h1''] ! j)) = Inl e \<longrightarrow>
            host_Pods (hosts' ! j) = host_Pods ([host_of ''h1''] ! j)) \<and>
       (\<forall>v. True \<longrightarrow> snd (getHostProcesses (related_t ''Process'') ?hr ([host_of ''h1''] ! j)) = Inr v \<longrightarrow>
            host_Processes (hosts' ! j) = v) \<and>
       (\<forall>v. True \<longrightarrow> snd (getHostContainers (related_t ''Container'') ?hr ([host_of ''h1''] ! j)) = Inr v \<longrightarrow>
            host_Containers (hosts' ! j) = v) \<and>
       (\<forall>v. True \<longrightarrow> snd (getHostContainerImages (related_t ''ContainerImage'') ?hr ([host_of ''h1''] ! j)) = Inr v \<longrightarrow>
            host_ContainerImages (hosts' ! j) = v) \<and>
       (\<forall>v. True \<longrightarrow> snd (getHostPods (related_t ''Pod'') ?hr ([host_of ''h1''] ! j)) = Inr v \<longrightarrow>
            host_Pods (hosts' ! j) = v)"
    by blast
  from h(3) pfail cok iok dok have at0:
    "host_ID (hosts' ! 0) = ''h1''" "host_Processes (hosts' ! 0) = []"
    "host_Containers (hosts' ! 0) = [''h1/x'']" "host_ContainerImages (hosts' ! 0) = [''h1/x'']"
    "host_Pods (hosts' ! 0) = [''h1/x'']"
    by (simp_all add: host_of_ID host_of_relations)
  have reg:
    "\<exists>e'. snd (GetRegistryAccountReport registry_t (related_t ''ContainerImage'') FieldFilterCypher
                ?rr all_fields) = Inl e'"
    by (rule R5) simp
  from hf cf hbase pfail h(1) h(2) at0 rbase rfail reg show ?thesis
    by simp
qed

text \<open>
  C4, counterexample to the claim as stated: the base query of the registry report
  succeeds (it returns the registry \<open>r1\<close>), the images query fails, and
  \<^verbatim>\<open>GetRegistryAccountReport\<close> returns that error instead of the report.
\<close>

theorem registry_report_fails_on_enrichment_error:
  "snd (getGenericDirectNodeReport registry_t FieldFilterCypher
          (page_reader [''r1''] registry_images_cypher) all_fields) = Inr [registry_of ''r1''] \<and>
   snd (GetRegistryAccountReport registry_t (related_t ''ContainerImage'') FieldFilterCypher
          (page_reader [''r1''] registry_images_cypher) all_fields) =
     Inl (StoreError ''relation query failed'')"
proof -
  let ?rr = "page_reader [''r1''] registry_images_cypher"
  have b: "snd (getGenericDirectNodeReport registry_t FieldFilterCypher ?rr all_fields) =
      Inr [registry_of ''r1'']"
    by (rule page_registry)
  then have "getGenericDirectNodeReport registry_t FieldFilterCypher ?rr all_fields =
      (fst (getGenericDirectNodeReport registry_t FieldFilterCypher ?rr all_fields),
       Inr [registry_of ''r1''])"
    by (rule pair_of_snd)
  then have "snd (GetRegistryAccountReport registry_t (related_t ''ContainerImage'')
                    FieldFilterCypher ?rr all_fields) =
      snd (registry_loop (related_t ''ContainerImage'') ?rr [registry_of ''r1''])"
    by (simp add: GetRegistryAccountReport_eq)
  also have "\<dots> = Inl (StoreError ''relation query failed'')"
    by (rule registry_loop_first) (rule page_registry_images_fail)
  finally show ?thesis using b by simp
qed

text \<open>
  C6. Claimed: \<^verbatim>\<open>GetHostsReport\<close> with \<^verbatim>\<open>InFieldFilter = ["processes"]\<close> for host \<open>h1\<close> returns
  the \<^verbatim>\<open>processes\<close> field populated via enrichment, leaves \<^verbatim>\<open>containers\<close>, \<^verbatim>\<open>pods\<close> and
  \<^verbatim>\<open>container_images\<close> unset and issues no query for them. On the store in which \<open>h1\<close> hosts
  the process \<open>p1\<close> the second half holds: after the lookup the only query is the
  processes query, and the three other fields are as decoded. But the host is decoded from
  the projection \<^verbatim>\<open>n.processes\<close> alone, so its \<^verbatim>\<open>ID\<close> is empty; the processes query goes out
  with \<^verbatim>\<open>$ids = [""]\<close> instead of \<open>h1\<close>, finds nothing, and the report returns the host with
  \<^verbatim>\<open>Processes = []\<close>, although the same query for the id \<open>h1\<close> returns \<open>p1\<close>.
\<close>

theorem GetHostsReport_projection_loses_host_id:
  "(let r = GetHostsReport host_t (related_t ''Process'') (related_t ''Container'')
              (related_t ''ContainerImage'') (related_t ''Pod'') FieldFilterCypher
              hosting_reader only_processes
    in runs (fst r) =
         [(''MATCH (n:Node) WHERE n.node_id IN $ids OPTIONAL MATCH (n) -[:IS]-> (e) RETURN n.processes, e'',
           [''h1'']),
          (host_processes_cypher, [''''])] \<and>
       (case snd r of
          Inl err \<Rightarrow> []
        | Inr hosts \<Rightarrow>
            map (\<lambda>h. (host_ID h, host_Processes h, host_Containers h,
                       host_ContainerImages h, host_Pods h)) hosts) =
         [('''', [], [], [], [])] \<and>
       (case snd r of Inl err \<Rightarrow> False | Inr hosts \<Rightarrow> True) \<and>
       snd (getIndirectFromIDs (related_t ''Process'') hosting_reader host_processes_cypher [''h1'']) =
         Inr [''p1''])"
  by code_simp

text \<open>
  C9, as the code has it. Every relation is fetched entity by entity. When its base query
  succeeds, a report issues, for each entity of the page in turn, one query for each
  relation its flags ask for, and the \<^verbatim>\<open>$ids\<close> of that query is the one-element list of that
  entity's id. For \<^verbatim>\<open>GetHostsReport\<close> the number of relation queries is the number of hosts
  of the page times the number of relations asked for; the same shape holds for
  \<^verbatim>\<open>GetContainersReport\<close>, \<^verbatim>\<open>GetContainerImagesReport\<close>, \<^verbatim>\<open>GetKubernetesClustersReport\<close>
  and, when it succeeds, for \<^verbatim>\<open>GetRegistryAccountReport\<close> (one images query per registry).
\<close>

theorem relation_queries_per_entity:
  assumes hf: "host_flags fltr = (getProcesses, getContainerImages, getContainers, getPods)"
      and cf: "container_flags fltr = (cProcesses, cImage)"
  shows
    "(\<forall>tr0 hosts. getGenericDirectNodeReport th ffc ctx fltr = (tr0, Inr hosts) \<longrightarrow>
        (\<exists>tr hosts'.
       GetHostsReport th tp tc ti td ffc ctx fltr = (tr0 @ tr, Inr hosts') \<and>
       runs tr = concat (map (\<lambda>h.
           (if getProcesses then [(host_processes_cypher, [host_ID h])] else []) @
           (if getContainers then [(host_containers_cypher, [host_ID h])] else []) @
           (if getContainerImages then [(host_container_images_cypher, [host_ID h])] else []) @
           (if getPods then [(host_pods_cypher, [host_ID h])] else [])) hosts) \<and>
       length (runs tr) =
         length hosts * (of_bool getProcesses + of_bool getContainers + of_bool getContainerImages + of_bool getPods) \<and>
       (\<forall>r \<in> set (runs tr). \<exists>h \<in> set hosts. snd r = [host_ID h]))) \<and>
     (\<forall>tr0 cs. getGenericDirectNodeReport tcn ffc ctx fltr = (tr0, Inr cs) \<longrightarrow>
        (\<exists>tr cs'.
       GetContainersReport tcn tcp tci ffc ctx fltr = (tr0 @ tr, Inr cs') \<and>
       runs tr = concat (map (\<lambda>c.
           (if cProcesses then [(container_processes_cypher, [container_ID c])] else []) @
           (if cImage then [(container_container_images_cypher, [container_ID c])] else [])) cs))) \<and>
     (\<forall>tr0 imgs. getGenericDirectNodeReport tim ffc ctx fltr = (tr0, Inr imgs) \<longrightarrow>
        (\<exists>tr imgs'.
       GetContainerImagesReport tim timc ffc ctx fltr = (tr0 @ tr, Inr imgs') \<and>
       runs tr = concat (map (\<lambda>i.
           (if image_flag fltr then [(container_image_containers_cypher, [image_ID i])] else [])) imgs))) \<and>
     (\<forall>tr0 cls. getGenericDirectNodeReport tk ffc ctx fltr = (tr0, Inr cls) \<longrightarrow>
        (\<exists>tr cls'.
       GetKubernetesClustersReport tk tkh ffc ctx fltr = (tr0 @ tr, Inr cls') \<and>
       runs tr = concat (map (\<lambda>c.
           (if cluster_flag fltr then [(cluster_hosts_cypher, [cluster_ID c])] else [])) cls))) \<and>
     (\<forall>tr0 regs regs'. getGenericDirectNodeReport tg ffc ctx fltr = (tr0, Inr regs) \<longrightarrow>
        snd (GetRegistryAccountReport tg tgi ffc ctx fltr) = Inr regs' \<longrightarrow>
        (\<exists>tr.
       GetRegistryAccountReport tg tgi ffc ctx fltr = (tr0 @ tr, Inr regs') \<and>
       runs tr = map (\<lambda>r. (registry_images_cypher, [registry_ID r])) regs))"
  apply (intro conjI allI impI)
      apply (erule hosts_queries [OF _ hf])
     apply (erule containers_queries [OF _ cf])
    apply (erule images_queries)
   apply (erule clusters_queries)
  apply (erule registries_queries, assumption)
  done

text \<open>
  C9, witness: a page of the two hosts \<open>h1\<close>, \<open>h2\<close> and the empty filter: four relations,
  eight relation queries.
\<close>

theorem relation_queries_per_entity_witness:
  "snd (getGenericDirectNodeReport host_t FieldFilterCypher (page_reader [''h1'', ''h2''] []) all_fields) =
     Inr [host_of ''h1'', host_of ''h2''] \<and>
   host_flags all_fields = (True, True, True, True) \<and>
   (\<exists>tr hosts'.
      GetHostsReport host_t (related_t ''Process'') (related_t ''Container'')
          (related_t ''ContainerImage'') (related_t ''Pod'') FieldFilterCypher
          (page_reader [''h1'', ''h2''] []) all_fields =
        (fst (getGenericDirectNodeReport host_t FieldFilterCypher (page_reader [''h1'', ''h2''] []) all_fields) @ tr,
         Inr hosts') \<and>
      length (runs tr) = 8 \<and>
      runs tr =
        [(host_processes_cypher, [''h1'']), (host_containers_cypher, [''h1'']),
         (host_container_images_cypher, [''h1'']), (host_pods_cypher, [''h1'']),
         (host_processes_cypher, [''h2'']), (host_containers_cypher, [''h2'']),
         (host_container_images_cypher, [''h2'']), (host_pods_cypher, [''h2''])])"
proof -
  let ?ctx = "page_reader [''h1'', ''h2''] []"
  let ?tr0 = "fst (getGenericDirectNodeReport host_t FieldFilterCypher ?ctx all_fields)"
  have b: "snd (getGenericDirectNodeReport host_t FieldFilterCypher ?ctx all_fields) =
      Inr [host_of ''h1'', host_of ''h2'']"
    using page_hosts [of "[''h1'', ''h2'']" "[]"] by simp
  then have base: "getGenericDirectNodeReport host_t FieldFilterCypher ?ctx all_fields =
      (?tr0, Inr [host_of ''h1'', host_of ''h2''])"
    by (rule pair_of_snd)
  have hf: "host_flags all_fields = (True, True, True, True)"
    by (simp add: host_flags_def all_fields_def)
  have cf: "container_flags all_fields = (True, True)"
    by (simp add: container_flags_def all_fields_def)
  note H = relation_queries_per_entity
             [OF hf cf, where ctx = ?ctx and ffc = FieldFilterCypher and th = host_t
               and tp = "related_t ''Process''" and tc = "related_t ''Container''"
               and ti = "related_t ''ContainerImage''" and td = "related_t ''Pod''",
              THEN conjunct1, rule_format, OF base]
  from H obtain tr hosts' where r:
    "GetHostsReport host_t (related_t ''Process'') (related_t ''Container'')
          (related_t ''ContainerImage'') (related_t ''Pod'') FieldFilterCypher ?ctx all_fields =
        (?tr0 @ tr, Inr hosts')"
    "runs tr = concat (map (\<lambda>h.
         (if True then [(host_processes_cypher, [host_ID h])] else []) @
         (if True then [(host_containers_cypher, [host_ID h])] else []) @
         (if True then [(host_container_images_cypher, [host_ID h])] else []) @
         (if True then [(host_pods_cypher, [host_ID h])] else [])) [host_of ''h1'', host_of ''h2''])"
    "length (runs tr) =
       length [host_of ''h1'', host_of ''h2''] * (of_bool True + of_bool True + of_bool True + of_bool True)"
    by blast
  from r(2) have runs: "runs tr =
        [(host_processes_cypher, [''h1'']), (host_containers_cypher, [''h1'']),
         (host_container_images_cypher, [''h1'']), (host_pods_cypher, [''h1'']),
         (host_processes_cypher, [''h2'']), (host_containers_cypher, [''h2'']),
         (host_container_images_cypher, [''h2'']), (host_pods_cypher, [''h2''])]"
    by (simp add: host_of_ID)
  from r(3) have len: "length (runs tr) = 8" by simp
  from b hf r(1) runs len show ?thesis by blast
qed

text \<open>
  C9, counterexample to the claim as stated: for a page of two hosts and the four
  relations of a host the report issues, after the base query, eight relation queries,
  not four, and each is parameterized by a single host's id, not by the page's id list;
  for a page of one host it issues four.
\<close>

theorem two_hosts_eight_relation_queries:
  "runs (fst (GetHostsReport host_t (related_t ''Process'') (related_t ''Container'')
                (related_t ''ContainerImage'') (related_t ''Pod'') FieldFilterCypher
                (page_reader [''h1'', ''h2''] []) all_fields)) =
     [(''MATCH (n:Node) OPTIONAL MATCH (n) -[:IS]-> (e) RETURN n, e'', []),
      (host_processes_cypher, [''h1'']), (host_containers_cypher, [''h1'']),
      (host_container_images_cypher, [''h1'']), (host_pods_cypher, [''h1'']),
      (host_processes_cypher, [''h2'']), (host_containers_cypher, [''h2'']),
      (host_container_images_cypher, [''h2'']), (host_pods_cypher, [''h2''])] \<and>
   length (runs (fst (GetHostsReport host_t (related_t ''Process'') (related_t ''Container'')
                (related_t ''ContainerImage'') (related_t ''Pod'') FieldFilterCypher
                (page_reader [''h1''] []) all_fields))) = 5"
  by code_simp

end
